theory Spec2Isabelle
  imports Main "HOL-Library.Sublist"
begin

section \<open>Python strings\<close>

text \<open>
  A Python \<open>str\<close> is a sequence of Unicode code points, and \<open>len\<close>, slicing, \<open>strip\<close>
  and the \<open>re\<close> module all count code points. A string is therefore a list of
  naturals; \<open>str ''abc''\<close> writes an ASCII literal, and a non-ASCII character of a
  literal of the source is written as its code point.
\<close>

type_synonym pystr = "nat list"

definition str :: "string \<Rightarrow> pystr" where
  "str s = map of_char s"

text \<open>
  \<open>str.isspace\<close> for one code point, as \<open>str.strip()\<close> without arguments uses it:
  the characters of bidirectional type WS, B or S and of category Zs.
\<close>

definition isspace :: "nat \<Rightarrow> bool" where
  "isspace c =
     ((9 \<le> c \<and> c \<le> 13) \<or> (28 \<le> c \<and> c \<le> 32) \<or> c = 133 \<or> c = 160 \<or> c = 5760 \<or>
      (8192 \<le> c \<and> c \<le> 8202) \<or> c = 8232 \<or> c = 8233 \<or> c = 8239 \<or> c = 8287 \<or>
      c = 12288)"

definition strip :: "pystr \<Rightarrow> pystr" where
  "strip s = rev (dropWhile isspace (rev (dropWhile isspace s)))"

text \<open>\<open>sub in s\<close>: the substring test.\<close>

fun contains :: "pystr \<Rightarrow> pystr \<Rightarrow> bool" where
  "contains [] sub = (sub = [])"
| "contains (c # cs) sub = (prefix sub (c # cs) \<or> contains cs sub)"

text \<open>
  \<open>s.replace(old, new)\<close>: every non-overlapping occurrence of \<open>old\<close>, from the left.
  With an empty \<open>old\<close> Python inserts \<open>new\<close> before every character and at the end.
\<close>

function replace :: "pystr \<Rightarrow> pystr \<Rightarrow> pystr \<Rightarrow> pystr" where
  "replace old new [] = (if old = [] then new else [])"
| "replace old new (c # cs) =
     (if old = [] then new @ c # replace old new cs
      else if prefix old (c # cs) then new @ replace old new (drop (length old) (c # cs))
      else c # replace old new cs)"
  by pat_completeness auto
termination
  by (relation "measure (\<lambda>(old, new, s). length s)") auto

text \<open>
  The part of the Unicode database and of the standard library that the program uses and
  that is not written out here is a parameter of the model:
  \<^item> \<open>uni_alnum c\<close>: \<open>str.isalnum\<close> of a code point \<open>c \<ge> 128\<close> (the \<open>re\<close> module's
    \<open>\w\<close> on a \<open>str\<close> pattern is \<open>isalnum\<close> or the underscore);
  \<^item> \<open>uni_capitalize s\<close>: \<open>s.capitalize()\<close> of a string that is not all ASCII;
  \<^item> \<open>strftime f t\<close>: \<open>t.strftime(f)\<close> of a \<open>datetime\<close>.
\<close>

record pylib =
  uni_alnum :: "nat \<Rightarrow> bool"
  uni_capitalize :: "pystr \<Rightarrow> pystr"
  strftime :: "pystr \<Rightarrow> int \<Rightarrow> pystr"

definition is_word :: "pylib \<Rightarrow> nat \<Rightarrow> bool" where
  "is_word L c =
     ((48 \<le> c \<and> c \<le> 57) \<or> (65 \<le> c \<and> c \<le> 90) \<or> (97 \<le> c \<and> c \<le> 122) \<or> c = 95 \<or>
      (128 \<le> c \<and> uni_alnum L c))"

definition ascii_upper :: "nat \<Rightarrow> nat" where
  "ascii_upper c = (if 97 \<le> c \<and> c \<le> 122 then c - 32 else c)"

definition ascii_lower :: "nat \<Rightarrow> nat" where
  "ascii_lower c = (if 65 \<le> c \<and> c \<le> 90 then c + 32 else c)"

text \<open>\<open>s.capitalize()\<close>: the first character in upper case, the rest in lower case.\<close>

definition capitalize :: "pylib \<Rightarrow> pystr \<Rightarrow> pystr" where
  "capitalize L s =
     (if list_all (\<lambda>c. c < 128) s
      then (case s of [] \<Rightarrow> [] | c # cs \<Rightarrow> ascii_upper c # map ascii_lower cs)
      else uni_capitalize L s)"

text \<open>\<open>str(n)\<close> of an integer: its decimal digits, with a minus sign when negative.\<close>

fun digits :: "nat \<Rightarrow> pystr" where
  "digits n = (if n < 10 then [48 + n] else digits (n div 10) @ [48 + n mod 10])"

definition str_of_int :: "int \<Rightarrow> pystr" where
  "str_of_int i = (if i < 0 then 45 # digits (nat (- i)) else digits (nat i))"

section \<open>The regular expressions of the program\<close>

text \<open>
  The fragment of Python's \<open>re\<close> syntax the program's patterns are written in:
  \<open>^\<close>, \<open>$\<close>, a character or character class with a repetition count
  (\<open>c\<close>, \<open>c?\<close>, \<open>\w{5,32}\<close>, \<open>[\w\+]+\<close>), concatenation and alternation.
\<close>

datatype charset = Ch nat | W | Or charset charset

fun in_charset :: "pylib \<Rightarrow> charset \<Rightarrow> nat \<Rightarrow> bool" where
  "in_charset L (Ch c) x = (x = c)"
| "in_charset L W x = is_word L x"
| "in_charset L (Or a b) x = (in_charset L a x \<or> in_charset L b x)"

datatype regex =
    Bol
  | Eol
  | Rep charset nat "nat option"
  | Seq regex regex
  | Alt regex regex

text \<open>
  A matcher state is the number of characters consumed and the rest of the subject.
  \<open>ends L r st\<close> lists the states in which a match of \<open>r\<close> begun in \<open>st\<close> can end.
  Without the MULTILINE flag \<open>^\<close> matches at the start of the subject only, and
  \<open>$\<close> matches at its end and also just before a newline that is its last character.
\<close>

fun ends :: "pylib \<Rightarrow> regex \<Rightarrow> nat \<times> pystr \<Rightarrow> (nat \<times> pystr) list" where
  "ends L Bol (i, r) = (if i = 0 then [(i, r)] else [])"
| "ends L Eol (i, r) = (if r = [] \<or> r = [10] then [(i, r)] else [])"
| "ends L (Rep c lo hi) (i, r) =
     (let n = length (takeWhile (in_charset L c) r);
          m = (case hi of None \<Rightarrow> n | Some h \<Rightarrow> min n h)
      in map (\<lambda>k. (i + k, drop k r)) [lo ..< Suc m])"
| "ends L (Seq a b) st = concat (map (ends L b) (ends L a st))"
| "ends L (Alt a b) st = ends L a st @ ends L b st"

text \<open>\<open>re.match(pattern, s)\<close> as a truth value: some match begins at the start of \<open>s\<close>.\<close>

definition re_match :: "pylib \<Rightarrow> regex \<Rightarrow> pystr \<Rightarrow> bool" where
  "re_match L p s = (ends L p (0, s) \<noteq> [])"

fun seq :: "regex list \<Rightarrow> regex" where
  "seq [] = Rep W 0 (Some 0)"
| "seq [r] = r"
| "seq (r # rs) = Seq r (seq rs)"

definition lit :: "string \<Rightarrow> regex" where
  "lit s = seq (map (\<lambda>c. Rep (Ch (of_char c)) 1 (Some 1)) s)"

definition opt :: "char \<Rightarrow> regex" where
  "opt c = Rep (Ch (of_char c)) 0 (Some 1)"

section \<open>validate_target\<close>

definition pat_username :: regex where
  "pat_username = seq [Bol, lit ''@'', Rep W 5 (Some 32), Eol]"

definition pat_link :: regex where
  "pat_link =
     seq [Bol, lit ''http'', opt CHR ''s'', lit ''://t.me/'', Rep (Or W (Ch 43)) 1 None,
          opt CHR ''/'', Eol]"

definition pat_invite :: regex where
  "pat_invite = seq [Bol, lit ''http'', opt CHR ''s'', lit ''://t.me/+'', Rep W 1 None, Eol]"

definition validate_target :: "pylib \<Rightarrow> pystr \<Rightarrow> bool" where
  "validate_target L target =
     (\<exists>pattern \<in> set [pat_username, pat_link, pat_invite]. re_match L pattern target)"

section \<open>Configuration, updates and the bot's state\<close>

text \<open>
  \<open>config.py\<close>: the two settings are constants of the module; the administrators and
  the report channel are read from the environment.
\<close>

record config =
  ADMIN_IDS :: "int list"
  REPORT_CHANNEL_ID :: "pystr option"

definition MAX_REPORT_LENGTH :: nat where
  "MAX_REPORT_LENGTH = 1000"

definition REPORT_COOLDOWN :: int where
  "REPORT_COOLDOWN = 60"

text \<open>
  A naive \<open>datetime\<close> is a number of microseconds on the calendar's time line, and a
  \<open>timedelta\<close> a difference of two. \<open>timedelta.seconds\<close> is the seconds field of the
  normalised value (days, seconds, microseconds), between 0 and 86399.
\<close>

definition timedelta_of_seconds :: "int \<Rightarrow> int" where
  "timedelta_of_seconds n = n * 1000000"

definition timedelta_seconds :: "int \<Rightarrow> int" where
  "timedelta_seconds d = (d div 1000000) mod 86400"

datatype conv_state = REPORT_TYPE | REPORT_TARGET | REPORT_REASON | REPORT_DETAILS | CONFIRMATION

datatype next_state = State conv_state | END

datatype error = KeyError | AttributeError

datatype outcome = Returned next_state | Raised error

text \<open>
  An update is a command message (its command name and its text), a text message that is
  not a command, or a button press with its callback data; the transport layer decides
  which. Each carries the user it comes from (\<open>update.effective_user\<close>).
\<close>

datatype update_body = Command pystr pystr | Text pystr | CallbackQuery pystr

record update =
  effective_user_id :: int
  effective_user_full_name :: pystr
  body :: update_body

text \<open>
  What a handler does to the outside is recorded in a trace: \<open>query.answer()\<close>,
  \<open>update.message.reply_text\<close>, \<open>query.edit_message_text\<close>, a call of
  \<open>context.bot.send_message\<close> (whether or not it then raises) and \<open>logger.error\<close>.
  A keyboard is its rows of buttons, each a label and its callback data; no
  \<open>reply_markup\<close> is the empty keyboard.
\<close>

type_synonym keyboard = "(pystr \<times> pystr) list list"

datatype parse_mode = Plain | Markdown

datatype chat = ChatName pystr | ChatId int

datatype action =
    Answer
  | Reply pystr keyboard parse_mode
  | Edit pystr keyboard parse_mode
  | SendMessage chat pystr keyboard parse_mode
  | LogError pystr

datatype key = Report_type | Report_target | Report_reason | Report_details

text \<open>
  \<open>user_data\<close> is \<open>context.user_data\<close> of the user of the update, \<open>user_cooldowns\<close>
  the module's dictionary of that name.
\<close>

record world =
  user_data :: "key \<rightharpoonup> pystr"
  user_cooldowns :: "int \<rightharpoonup> int"
  trace :: "action list"

text \<open>
  What a handler reads from outside the program: the library, the configuration, the
  clock (\<open>now e k\<close> is what the \<open>k\<close>-th call of \<open>datetime.now()\<close> during this update
  returns) and the transport (\<open>send_fails e k\<close> is the text of the exception the
  \<open>k\<close>-th call of \<open>send_message\<close> during this update raises, if it raises). Replying to
  the user and editing the message of a pressed button are taken not to raise.
\<close>

record env =
  lib :: pylib
  cfg :: config
  now :: "nat \<Rightarrow> int"
  send_fails :: "nat \<Rightarrow> pystr option"

definition emit :: "action \<Rightarrow> world \<Rightarrow> world" where
  "emit a w = w\<lparr>trace := trace w @ [a]\<rparr>"

definition store :: "key \<Rightarrow> pystr \<Rightarrow> world \<Rightarrow> world" where
  "store k v w = w\<lparr>user_data := (user_data w)(k \<mapsto> v)\<rparr>"

definition message_text :: "update \<Rightarrow> pystr option" where
  "message_text u =
     (case body u of Command name text \<Rightarrow> Some text | Text text \<Rightarrow> Some text
      | CallbackQuery data \<Rightarrow> None)"

section \<open>The handlers of ReportBot\<close>

definition REPORT_TYPES :: "pystr \<rightharpoonup> pystr" where
  "REPORT_TYPES =
     [str ''user'' \<mapsto> [128100] @ str '' User'',
      str ''group'' \<mapsto> [128101] @ str '' Group'',
      str ''channel'' \<mapsto> [128226] @ str '' Channel'']"

definition cancel_button :: "pystr \<times> pystr" where
  "cancel_button = ([10060] @ str '' Cancel'', str ''cancel'')"

definition type_keyboard :: keyboard where
  "type_keyboard =
     [[([128100] @ str '' User'', str ''type_user'')],
      [([128101] @ str '' Group'', str ''type_group'')],
      [([128226] @ str '' Channel'', str ''type_channel'')],
      [cancel_button]]"

definition report_command :: "env \<Rightarrow> update \<Rightarrow> world \<Rightarrow> outcome \<times> world" where
  "report_command e u w =
     (case message_text u of
        None \<Rightarrow> (Raised AttributeError, w)
      | Some text \<Rightarrow>
          (case user_cooldowns w (effective_user_id u) of
             Some cooldown_end \<Rightarrow>
               if now e 0 < cooldown_end
               then (let remaining = timedelta_seconds (cooldown_end - now e 1)
                     in (Returned END,
                         emit (Reply ([9200] @ str '' Please wait '' @ str_of_int remaining @
                                      str '' seconds before creating another report.'')
                                 [] Plain) w))
               else (Returned (State REPORT_TYPE),
                     emit (Reply ([128269] @ str '' **What would you like to report?**'' @
                                  [10, 10] @ str ''Please select one of the options below:'')
                             type_keyboard Markdown) w)
           | None \<Rightarrow>
               (Returned (State REPORT_TYPE),
                emit (Reply ([128269] @ str '' **What would you like to report?**'' @
                             [10, 10] @ str ''Please select one of the options below:'')
                        type_keyboard Markdown) w)))"

definition report_type_callback :: "env \<Rightarrow> update \<Rightarrow> world \<Rightarrow> outcome \<times> world" where
  "report_type_callback e u w =
     (case body u of
        CallbackQuery data \<Rightarrow>
          if data = str ''cancel''
          then (Returned END, emit (Edit ([10060] @ str '' Report cancelled.'') [] Plain)
                                (emit Answer w))
          else (let report_type = replace (str ''type_'') [] data;
                    w' = store Report_type report_type (emit Answer w)
                in case REPORT_TYPES report_type of
                     None \<Rightarrow> (Raised KeyError, w')
                   | Some label \<Rightarrow>
                       (Returned (State REPORT_TARGET),
                        emit (Edit ([128221] @ str '' You selected: **'' @ label @ str ''**'' @
                                [10, 10] @
                                str ''Please send the username or invite link of the '' @
                                report_type @ str '' you want to report.'' @ [10, 10] @
                                str ''Examples:'' @ [10, 8226] @
                                str '' Username: @username'' @ [10, 8226] @
                                str '' Link: https://t.me/username'' @ [10, 8226] @
                                str '' Group link: https://t.me/+abc123...'')
                               [] Markdown) w'))
      | _ \<Rightarrow> (Raised AttributeError, w))"

definition reasons :: "(pystr \<times> pystr) list" where
  "reasons =
     [(str ''spam'', [128231] @ str '' Spam''),
      (str ''scam'', [128176] @ str '' Scam/Fraud''),
      (str ''harassment'', [9888, 65039] @ str '' Harassment''),
      (str ''illegal'', [128683] @ str '' Illegal Content''),
      (str ''impersonation'', [128100] @ str '' Impersonation''),
      (str ''other'', [128204] @ str '' Other'')]"

definition reason_keyboard :: keyboard where
  "reason_keyboard =
     map (\<lambda>(key, reason). [(reason, str ''reason_'' @ key)]) reasons @ [[cancel_button]]"

definition report_target :: "env \<Rightarrow> update \<Rightarrow> world \<Rightarrow> outcome \<times> world" where
  "report_target e u w =
     (case message_text u of
        None \<Rightarrow> (Raised AttributeError, w)
      | Some text \<Rightarrow>
          (let target = strip text
           in if \<not> validate_target (lib e) target
              then (Returned (State REPORT_TARGET),
                    emit (Reply ([10060] @
                            str '' Invalid format. Please provide a valid username '' @
                            str ''or Telegram link.'' @ [10, 10] @ str ''Examples:'' @
                            [10, 8226] @ str '' @username'' @ [10, 8226] @
                            str '' https://t.me/username'' @ [10, 8226] @
                            str '' https://t.me/+abc123...'')
                           [] Plain) w)
              else (Returned (State REPORT_REASON),
                    emit (Reply ([9888, 65039] @ str '' **Select a reason for your report:**'')
                            reason_keyboard Markdown)
                      (store Report_target target w))))"

definition report_reason_callback :: "env \<Rightarrow> update \<Rightarrow> world \<Rightarrow> outcome \<times> world" where
  "report_reason_callback e u w =
     (case body u of
        CallbackQuery data \<Rightarrow>
          if data = str ''cancel''
          then (Returned END, emit (Edit ([10060] @ str '' Report cancelled.'') [] Plain)
                                (emit Answer w))
          else (let reason = replace (str ''reason_'') [] data
                in (Returned (State REPORT_DETAILS),
                    emit (Edit ([128221] @ str '' **Please provide additional details:**'' @
                            [10, 10] @
                            str ''Include any relevant information that might help '' @
                            str ''us investigate this report.'' @ [10] @ str ''Maximum '' @
                            str_of_int (int MAX_REPORT_LENGTH) @ str '' characters.'' @
                            [10, 10] @
                            str ''Send /skip to continue without additional details.'')
                           [] Markdown)
                      (store Report_reason reason (emit Answer w))))
      | _ \<Rightarrow> (Raised AttributeError, w))"

definition confirm_keyboard :: keyboard where
  "confirm_keyboard = [[([9989] @ str '' Confirm'', str ''confirm''), cancel_button]]"

definition summary :: "pylib \<Rightarrow> pystr \<Rightarrow> pystr \<Rightarrow> pystr \<Rightarrow> pystr \<Rightarrow> pystr" where
  "summary L label target reason details =
     [128203] @ str '' **Please confirm your report:**'' @ [10, 10] @
     str ''**Type:** '' @ label @ [10] @
     str ''**Target:** '' @ target @ [10] @
     str ''**Reason:** '' @ capitalize L reason @ [10] @
     str ''**Details:** '' @ take 200 details"

definition confirm_report :: "env \<Rightarrow> update \<Rightarrow> world \<Rightarrow> outcome \<times> world" where
  "confirm_report e u w =
     (case user_data w Report_type of None \<Rightarrow> (Raised KeyError, w) | Some report_type \<Rightarrow>
      case REPORT_TYPES report_type of None \<Rightarrow> (Raised KeyError, w) | Some label \<Rightarrow>
      case user_data w Report_target of None \<Rightarrow> (Raised KeyError, w) | Some target \<Rightarrow>
      case user_data w Report_reason of None \<Rightarrow> (Raised KeyError, w) | Some reason \<Rightarrow>
      case user_data w Report_details of None \<Rightarrow> (Raised KeyError, w) | Some details \<Rightarrow>
        (Returned (State CONFIRMATION),
         emit ((if message_text u \<noteq> None then Reply else Edit)
                 (summary (lib e) label target reason details) confirm_keyboard Markdown) w))"

definition report_details :: "env \<Rightarrow> update \<Rightarrow> world \<Rightarrow> outcome \<times> world" where
  "report_details e u w =
     (case message_text u of
        None \<Rightarrow> (Raised AttributeError, w)
      | Some text \<Rightarrow>
          (let details = strip text
           in if length details > MAX_REPORT_LENGTH
              then (Returned (State REPORT_DETAILS),
                    emit (Reply ([10060] @ str '' Details too long. Maximum '' @
                            str_of_int (int MAX_REPORT_LENGTH) @ str '' characters allowed.'' @
                            [10] @ str ''Please try again or use /skip to continue without '' @
                            str ''details.'')
                           [] Plain) w)
              else confirm_report e u (store Report_details details w)))"

definition skip_details :: "env \<Rightarrow> update \<Rightarrow> world \<Rightarrow> outcome \<times> world" where
  "skip_details e u w =
     confirm_report e u (store Report_details (str ''No additional details provided.'') w)"

definition admin_keyboard :: "int \<Rightarrow> keyboard" where
  "admin_keyboard uid =
     [[([9989] @ str '' Resolve'', str ''resolve_'' @ str_of_int uid),
       ([10060] @ str '' Reject'', str ''reject_'' @ str_of_int uid)]]"

text \<open>
  The loop of \<open>save_report\<close> over \<open>config.ADMIN_IDS\<close>; \<open>k\<close> counts the calls of
  \<open>send_message\<close> made so far. An exception of the call is caught in the loop's body
  and logged.
\<close>

fun send_to_admins :: "env \<Rightarrow> nat \<Rightarrow> pystr \<Rightarrow> int \<Rightarrow> int list \<Rightarrow> world \<Rightarrow> world" where
  "send_to_admins e k text uid [] w = w"
| "send_to_admins e k text uid (admin_id # rest) w =
     (let w1 = emit (SendMessage (ChatId admin_id) text (admin_keyboard uid) Markdown) w;
          w2 = (case send_fails e k of
                  None \<Rightarrow> w1
                | Some exn \<Rightarrow>
                    emit (LogError (str ''Failed to send report to admin '' @
                            str_of_int admin_id @ str '': '' @ exn)) w1)
      in send_to_admins e (Suc k) text uid rest w2)"

definition report_text :: "env \<Rightarrow> update \<Rightarrow> pystr \<Rightarrow> pystr \<Rightarrow> pystr \<Rightarrow> pystr \<Rightarrow> pystr" where
  "report_text e u label target reason details =
     [128680] @ str '' **NEW REPORT**'' @ [10, 10] @ str ''**Report ID:** #'' @
     strftime (lib e) ([37] @ str ''Y'' @ [37] @ str ''m'' @ [37] @ str ''d'' @ [37] @
                       str ''H'' @ [37] @ str ''M'' @ [37] @ str ''S'') (now e 0) @ [10] @
     str ''**Date:** '' @
     strftime (lib e) ([37] @ str ''Y-'' @ [37] @ str ''m-'' @ [37] @ str ''d '' @ [37] @
                       str ''H:'' @ [37] @ str ''M:'' @ [37] @ str ''S'') (now e 1) @ [10] @
     str ''**Reporter:** '' @ effective_user_full_name u @ str '' (ID: '' @ [96] @
     str_of_int (effective_user_id u) @ [96] @ str '')'' @ [10] @
     str ''**Type:** '' @ label @ [10] @
     str ''**Target:** '' @ target @ [10] @
     str ''**Reason:** '' @ capitalize (lib e) reason @ [10] @
     str ''**Details:** '' @ details @ [10]"

definition save_report :: "env \<Rightarrow> update \<Rightarrow> world \<Rightarrow> error + world" where
  "save_report e u w =
     (case user_data w Report_type of None \<Rightarrow> Inl KeyError | Some report_type \<Rightarrow>
      case REPORT_TYPES report_type of None \<Rightarrow> Inl KeyError | Some label \<Rightarrow>
      case user_data w Report_target of None \<Rightarrow> Inl KeyError | Some target \<Rightarrow>
      case user_data w Report_reason of None \<Rightarrow> Inl KeyError | Some reason \<Rightarrow>
      case user_data w Report_details of None \<Rightarrow> Inl KeyError | Some details \<Rightarrow>
        (let text = report_text e u label target reason details;
             uid = effective_user_id u
         in case REPORT_CHANNEL_ID (cfg e) of
              None \<Rightarrow> Inr (send_to_admins e 0 text uid (ADMIN_IDS (cfg e)) w)
            | Some channel \<Rightarrow>
                if channel = []
                then Inr (send_to_admins e 0 text uid (ADMIN_IDS (cfg e)) w)
                else (let w1 = emit (SendMessage (ChatName channel) text [] Markdown) w;
                          w2 = (case send_fails e 0 of
                                  None \<Rightarrow> w1
                                | Some exn \<Rightarrow>
                                    emit (LogError
                                      (str ''Failed to send report to channel: '' @ exn)) w1)
                      in Inr (send_to_admins e 1 text uid (ADMIN_IDS (cfg e)) w2))))"

definition confirmation_callback :: "env \<Rightarrow> update \<Rightarrow> world \<Rightarrow> outcome \<times> world" where
  "confirmation_callback e u w =
     (case body u of
        CallbackQuery data \<Rightarrow>
          if data = str ''cancel''
          then (Returned END, emit (Edit ([10060] @ str '' Report cancelled.'') [] Plain)
                                (emit Answer w))
          else (case save_report e u (emit Answer w) of
                  Inl err \<Rightarrow> (Raised err, emit Answer w)
                | Inr w1 \<Rightarrow>
                    (let w2 = w1\<lparr>user_cooldowns := (user_cooldowns w1)
                                 (effective_user_id u \<mapsto>
                                    now e 2 + timedelta_of_seconds REPORT_COOLDOWN)\<rparr>;
                         w3 = emit (Edit ([9989] @
                                str '' **Report submitted successfully!**'' @ [10, 10] @
                                str ''Thank you for helping keep Telegram safe. Our '' @
                                str ''team will review your report.'' @ [10] @
                                str ''You can use /report to submit another report.'')
                               [] Markdown) w2
                     in (Returned END, w3\<lparr>user_data := Map.empty\<rparr>)))
      | _ \<Rightarrow> (Raised AttributeError, w))"

definition cancel :: "env \<Rightarrow> update \<Rightarrow> world \<Rightarrow> outcome \<times> world" where
  "cancel e u w =
     (case message_text u of
        None \<Rightarrow> (Raised AttributeError, w)
      | Some text \<Rightarrow>
          (Returned END,
           emit (Reply ([10060] @ str '' Operation cancelled. Use /report to start a new '' @
                        str ''report.'') [] Plain) w))"

section \<open>The conversation handler of setup\<close>

text \<open>
  The checks of the registered handlers: \<open>CommandHandler(name, ...)\<close>,
  \<open>MessageHandler(filters.TEXT & ~filters.COMMAND, ...)\<close> and
  \<open>CallbackQueryHandler(..., pattern=...)\<close>, which matches the pattern against the
  callback data with \<open>re.match\<close>.
\<close>

definition is_command :: "string \<Rightarrow> update \<Rightarrow> bool" where
  "is_command name u = (case body u of Command n text \<Rightarrow> n = str name | _ \<Rightarrow> False)"

definition is_text :: "update \<Rightarrow> bool" where
  "is_text u = (case body u of Text text \<Rightarrow> True | _ \<Rightarrow> False)"

definition is_callback :: "pylib \<Rightarrow> regex \<Rightarrow> update \<Rightarrow> bool" where
  "is_callback L pattern u =
     (case body u of CallbackQuery data \<Rightarrow> re_match L pattern data | _ \<Rightarrow> False)"

definition pat_type :: regex where
  "pat_type = seq [Bol, Alt (lit ''type_'') (lit ''cancel'')]"

definition pat_reason :: regex where
  "pat_reason = seq [Bol, Alt (lit ''reason_'') (lit ''cancel'')]"

definition pat_confirmation :: regex where
  "pat_confirmation = seq [Bol, Alt (lit ''confirm'') (lit ''cancel''), Eol]"

type_synonym handler = "(update \<Rightarrow> bool) \<times> (update \<Rightarrow> world \<Rightarrow> outcome \<times> world)"

definition entry_points :: "env \<Rightarrow> handler list" where
  "entry_points e = [(is_command ''report'', report_command e)]"

fun states :: "env \<Rightarrow> conv_state \<Rightarrow> handler list" where
  "states e REPORT_TYPE = [(is_callback (lib e) pat_type, report_type_callback e)]"
| "states e REPORT_TARGET = [(is_text, report_target e)]"
| "states e REPORT_REASON = [(is_callback (lib e) pat_reason, report_reason_callback e)]"
| "states e REPORT_DETAILS =
     [(is_text, report_details e), (is_command ''skip'', skip_details e)]"
| "states e CONFIRMATION = [(is_callback (lib e) pat_confirmation, confirmation_callback e)]"

definition fallbacks :: "env \<Rightarrow> handler list" where
  "fallbacks e = [(is_command ''cancel'', cancel e)]"

fun first_match :: "handler list \<Rightarrow> update \<Rightarrow> (update \<Rightarrow> world \<Rightarrow> outcome \<times> world) option" where
  "first_match [] u = None"
| "first_match ((check, callback) # hs) u = (if check u then Some callback else first_match hs u)"

text \<open>
  \<open>ConversationHandler\<close> for one conversation, whose state is \<open>None\<close> when no
  conversation is open. Outside a conversation only the entry points are tried; inside,
  the handlers of the current state and then the fallbacks. An update no handler accepts
  is not handled (\<open>None\<close>). A handler that returns \<open>END\<close> closes the conversation,
  one that returns a state moves to it, and one that raises leaves the state as it was.
\<close>

definition conv_handler ::
    "env \<Rightarrow> conv_state option \<Rightarrow> update \<Rightarrow> world \<Rightarrow> (conv_state option \<times> world) option" where
  "conv_handler e st u w =
     (case (case st of
              None \<Rightarrow> first_match (entry_points e) u
            | Some s \<Rightarrow>
                (case first_match (states e s) u of
                   Some h \<Rightarrow> Some h
                 | None \<Rightarrow> first_match (fallbacks e) u)) of
        None \<Rightarrow> None
      | Some h \<Rightarrow>
          (case h u w of
             (Returned END, w') \<Rightarrow> Some (None, w')
           | (Returned (State s'), w') \<Rightarrow> Some (Some s', w')
           | (Raised err, w') \<Rightarrow> Some (st, w')))"

text \<open>
  The validator with its third pattern removed, to compare with \<open>validate_target\<close>.
\<close>

definition validate_target_two_patterns :: "pylib \<Rightarrow> pystr \<Rightarrow> bool" where
  "validate_target_two_patterns L target =
     (\<exists>pattern \<in> set [pat_username, pat_link]. re_match L pattern target)"

text \<open>
  The recipients of the calls of \<open>send_message\<close> recorded in a trace, in order, and the
  recipients the configuration names: the report channel, if one is set, and then every
  administrator.
\<close>

fun sends :: "action list \<Rightarrow> chat list" where
  "sends [] = []"
| "sends (SendMessage c text k m # as) = c # sends as"
| "sends (a # as) = sends as"

definition recipients :: "config \<Rightarrow> chat list" where
  "recipients c =
     (case REPORT_CHANNEL_ID c of
        None \<Rightarrow> []
      | Some channel \<Rightarrow> if channel = [] then [] else [ChatName channel]) @
     map ChatId (ADMIN_IDS c)"

text \<open>
  A draft is complete when all four fields are stored and the stored type is one of
  \<open>REPORT_TYPES\<close>, as it is after \<open>confirm_report\<close> has shown the summary.
\<close>

definition complete :: "world \<Rightarrow> bool" where
  "complete w =
     (case user_data w Report_type of
        None \<Rightarrow> False
      | Some report_type \<Rightarrow>
          REPORT_TYPES report_type \<noteq> None \<and> user_data w Report_target \<noteq> None \<and>
          user_data w Report_reason \<noteq> None \<and> user_data w Report_details \<noteq> None)"

text \<open>
  An example: a library that knows ASCII only, two administrators and a channel, a clock
  that starts at 5 seconds, a transport whose second \<open>send_message\<close> fails, and the
  draft of the happy path.
\<close>

definition ascii_lib :: pylib where
  "ascii_lib = \<lparr>uni_alnum = (\<lambda>c. False), uni_capitalize = (\<lambda>s. s), strftime = (\<lambda>f t. f)\<rparr>"

definition example_env :: env where
  "example_env =
     \<lparr>lib = ascii_lib,
      cfg = \<lparr>ADMIN_IDS = [11, 22], REPORT_CHANNEL_ID = Some (str ''-1001'')\<rparr>,
      now = (\<lambda>k. 5000000 + int k),
      send_fails = (\<lambda>k. if k = 1 then Some (str ''Forbidden'') else None)\<rparr>"

definition example_update :: "update_body \<Rightarrow> update" where
  "example_update b =
     \<lparr>effective_user_id = 7, effective_user_full_name = str ''Ann'', body = b\<rparr>"

definition example_draft :: "key \<rightharpoonup> pystr" where
  "example_draft =
     [Report_type \<mapsto> str ''group'', Report_target \<mapsto> str ''https://t.me/examplegroup'',
      Report_reason \<mapsto> str ''spam'', Report_details \<mapsto> str ''test'']"

definition example_world :: world where
  "example_world = \<lparr>user_data = example_draft, user_cooldowns = Map.empty, trace = []\<rparr>"

text \<open>
  A conversation: the updates of one user, handled in order; an update no handler accepts
  changes nothing.
\<close>

fun run :: "env \<Rightarrow> conv_state option \<times> world \<Rightarrow> update list \<Rightarrow> conv_state option \<times> world" where
  "run e sw [] = sw"
| "run e (st, w) (u # us) =
     (case conv_handler e st u w of None \<Rightarrow> run e (st, w) us | Some sw' \<Rightarrow> run e sw' us)"

definition happy_path :: "update list" where
  "happy_path =
     map example_update
       [Command (str ''report'') (str ''/report''), CallbackQuery (str ''type_group''),
        Text (str ''https://t.me/examplegroup''), CallbackQuery (str ''reason_spam''),
        Text (str ''test'')]"

section \<open>Properties of the matcher\<close>

lemma length_takeWhile_ge:
  "k \<le> length (takeWhile P r) \<longleftrightarrow> k \<le> length r \<and> list_all P (take k r)"
proof (induction r arbitrary: k)
  case Nil
  then show ?case by simp
next
  case (Cons x xs)
  then show ?case by (cases k) auto
qed

lemma ends_Rep_iff:
  "(j, r') \<in> set (ends L (Rep c lo hi) (i, r)) \<longleftrightarrow>
     (\<exists>k. j = i + k \<and> r' = drop k r \<and> lo \<le> k \<and> (case hi of None \<Rightarrow> True | Some h \<Rightarrow> k \<le> h) \<and>
          k \<le> length r \<and> list_all (in_charset L c) (take k r))"
proof -
  define n where "n = length (takeWhile (in_charset L c) r)"
  define m where "m = (case hi of None \<Rightarrow> n | Some h \<Rightarrow> min n h)"
  have le_m: "k \<le> m \<longleftrightarrow> (case hi of None \<Rightarrow> True | Some h \<Rightarrow> k \<le> h) \<and>
          k \<le> length r \<and> list_all (in_charset L c) (take k r)" for k
    unfolding m_def n_def by (cases hi) (auto simp: length_takeWhile_ge)
  have "ends L (Rep c lo hi) (i, r) = map (\<lambda>k. (i + k, drop k r)) [lo ..< Suc m]"
    unfolding m_def n_def by (simp add: Let_def)
  then have "(j, r') \<in> set (ends L (Rep c lo hi) (i, r)) \<longleftrightarrow>
      (\<exists>k. lo \<le> k \<and> k \<le> m \<and> j = i + k \<and> r' = drop k r)"
    by (auto simp: less_Suc_eq_le)
  then show ?thesis
    unfolding le_m by blast
qed

lemma in_charset_Ch: "in_charset L (Ch c) = (\<lambda>x. x = c)"
  by (rule ext) simp

lemma ends_Seq_iff:
  "st'' \<in> set (ends L (Seq a b) st) \<longleftrightarrow> (\<exists>st'. st' \<in> set (ends L a st) \<and> st'' \<in> set (ends L b st'))"
  by auto

lemma ends_seq_Nil: "ends L (seq []) (i, r) = [(i, r)]"
  by simp

lemma ends_seq_Cons: "ends L (seq (a # rs)) st = concat (map (ends L (seq rs)) (ends L a st))"
proof (cases rs)
  case Nil
  have "concat (map (\<lambda>s. [s]) xs) = xs" for xs :: "(nat \<times> pystr) list"
    by (induction xs) auto
  moreover have "ends L (seq []) = (\<lambda>s. [s])"
    by (rule ext) (auto simp: split_paired_all)
  ultimately show ?thesis using Nil by simp
next
  case (Cons b rs')
  then show ?thesis by simp
qed

lemma ends_seq_Cons_iff:
  "st'' \<in> set (ends L (seq (a # rs)) st) \<longleftrightarrow>
     (\<exists>st'. st' \<in> set (ends L a st) \<and> st'' \<in> set (ends L (seq rs) st'))"
  by (auto simp: ends_seq_Cons)

lemma ends_char:
  "ends L (Rep (Ch c) (Suc 0) (Some (Suc 0))) (i, r) =
     (case r of [] \<Rightarrow> [] | x # r' \<Rightarrow> if x = c then [(Suc i, r')] else [])"
  by (cases r) (simp_all add: Let_def)

lemma ends_char_iff:
  "(j, r') \<in> set (ends L (Rep (Ch c) (Suc 0) (Some (Suc 0))) (i, r)) \<longleftrightarrow> j = Suc i \<and> r = c # r'"
  unfolding ends_char by (cases r) auto

lemma lit_Cons: "lit (c # s) = seq (Rep (Ch (of_char c)) (Suc 0) (Some (Suc 0)) # map (\<lambda>c. Rep (Ch (of_char c)) 1 (Some 1)) s)"
  by (simp add: lit_def)

lemma ends_lit_iff:
  "(j, r') \<in> set (ends L (lit s) (i, r)) \<longleftrightarrow> j = i + length s \<and> r = str s @ r'"
proof (induction s arbitrary: i r)
  case Nil
  then show ?case by (auto simp: lit_def str_def)
next
  case (Cons c s)
  have "(j, r') \<in> set (ends L (lit (c # s)) (i, r)) \<longleftrightarrow>
        (\<exists>i' r''. (i' = Suc i \<and> r = of_char c # r'') \<and> (j, r') \<in> set (ends L (lit s) (i', r'')))"
    unfolding lit_Cons ends_seq_Cons_iff split_paired_Ex ends_char_iff
    by (simp add: lit_def)
  also have "\<dots> \<longleftrightarrow> (\<exists>r''. r = of_char c # r'' \<and> j = Suc i + length s \<and> r'' = str s @ r')"
    unfolding Cons.IH by blast
  also have "\<dots> \<longleftrightarrow> j = i + length (c # s) \<and> r = str (c # s) @ r'"
    by (auto simp: str_def)
  finally show ?case .
qed

lemma ends_opt:
  "ends L (opt c) (i, r) =
     (i, r) # (case r of [] \<Rightarrow> [] | x # r' \<Rightarrow> if x = of_char c then [(Suc i, r')] else [])"
  by (cases r) (simp_all add: Let_def opt_def)

lemma ends_opt_iff:
  "(j, r') \<in> set (ends L (opt c) (i, r)) \<longleftrightarrow> (j = i \<and> r' = r) \<or> (j = Suc i \<and> r = of_char c # r')"
  unfolding ends_opt by (cases r) auto

lemma ends_Bol_iff: "(j, r') \<in> set (ends L Bol (i, r)) \<longleftrightarrow> i = 0 \<and> j = 0 \<and> r' = r"
  by auto

lemma ends_Eol_iff: "(j, r') \<in> set (ends L Eol (i, r)) \<longleftrightarrow> j = i \<and> r' = r \<and> (r = [] \<or> r = [10])"
  by auto

lemma re_match_iff: "re_match L p s \<longleftrightarrow> (\<exists>j r'. (j, r') \<in> set (ends L p (0, s)))"
  by (cases "ends L p (0, s)") (auto simp: re_match_def)

lemma ends_Rep_app:
  "(j, r') \<in> set (ends L (Rep c lo hi) (i, r)) \<longleftrightarrow>
     (\<exists>w. r = w @ r' \<and> j = i + length w \<and> lo \<le> length w \<and>
          (case hi of None \<Rightarrow> True | Some h \<Rightarrow> length w \<le> h) \<and> list_all (in_charset L c) w)"
proof
  assume "(j, r') \<in> set (ends L (Rep c lo hi) (i, r))"
  then obtain k where k: "j = i + k" "r' = drop k r" "lo \<le> k"
      "case hi of None \<Rightarrow> True | Some h \<Rightarrow> k \<le> h" "k \<le> length r"
      "list_all (in_charset L c) (take k r)"
    unfolding ends_Rep_iff by blast
  have "r = take k r @ r'" "length (take k r) = k"
    using k(2,5) by simp_all
  with k show "\<exists>w. r = w @ r' \<and> j = i + length w \<and> lo \<le> length w \<and>
          (case hi of None \<Rightarrow> True | Some h \<Rightarrow> length w \<le> h) \<and> list_all (in_charset L c) w"
    by (intro exI [of _ "take k r"]) (cases hi; simp)
next
  assume "\<exists>w. r = w @ r' \<and> j = i + length w \<and> lo \<le> length w \<and>
          (case hi of None \<Rightarrow> True | Some h \<Rightarrow> length w \<le> h) \<and> list_all (in_charset L c) w"
  then obtain w where w: "r = w @ r'" "j = i + length w" "lo \<le> length w"
      "case hi of None \<Rightarrow> True | Some h \<Rightarrow> length w \<le> h" "list_all (in_charset L c) w"
    by blast
  show "(j, r') \<in> set (ends L (Rep c lo hi) (i, r))"
    unfolding ends_Rep_iff using w by (intro exI [of _ "length w"]) simp
qed

lemma ends_opt_app:
  "(j, r') \<in> set (ends L (opt c) (i, r)) \<longleftrightarrow>
     (\<exists>w. r = w @ r' \<and> j = i + length w \<and> (w = [] \<or> w = [of_char c]))"
  unfolding ends_opt_iff by auto

lemma in_charset_W: "in_charset L W = is_word L"
  by (rule ext) simp

lemma re_match_username_iff:
  "re_match L pat_username s \<longleftrightarrow>
     (\<exists>w t. s = 64 # w @ t \<and> 5 \<le> length w \<and> length w \<le> 32 \<and> list_all (is_word L) w \<and>
            (t = [] \<or> t = [10]))"
  unfolding re_match_iff pat_username_def ends_seq_Cons_iff split_paired_Ex ends_seq_Nil
    ends_Bol_iff ends_lit_iff ends_Rep_app ends_Eol_iff in_charset_W
  by (auto simp: str_def)

lemma re_match_link_iff:
  "re_match L pat_link s \<longleftrightarrow>
     (\<exists>a w b t. s = str ''http'' @ a @ str ''://t.me/'' @ w @ b @ t \<and> (a = [] \<or> a = str ''s'') \<and>
            1 \<le> length w \<and> list_all (in_charset L (Or W (Ch 43))) w \<and>
            (b = [] \<or> b = str ''/'') \<and> (t = [] \<or> t = [10]))"
  unfolding re_match_iff pat_link_def ends_seq_Cons_iff split_paired_Ex ends_seq_Nil
    ends_Bol_iff ends_lit_iff ends_Rep_app ends_Eol_iff ends_opt_app
  by (simp add: str_def) blast

lemma re_match_invite_iff:
  "re_match L pat_invite s \<longleftrightarrow>
     (\<exists>a w t. s = str ''http'' @ a @ str ''://t.me/+'' @ w @ t \<and> (a = [] \<or> a = str ''s'') \<and>
            1 \<le> length w \<and> list_all (is_word L) w \<and> (t = [] \<or> t = [10]))"
  unfolding re_match_iff pat_invite_def ends_seq_Cons_iff split_paired_Ex ends_seq_Nil
    ends_Bol_iff ends_lit_iff ends_Rep_app ends_Eol_iff ends_opt_app in_charset_W
  by (simp add: str_def) blast

section \<open>The validator\<close>

lemma validate_target_iff:
  "validate_target L s \<longleftrightarrow> re_match L pat_username s \<or> re_match L pat_link s \<or> re_match L pat_invite s"
  by (simp add: validate_target_def)

lemma invite_imp_link:
  assumes "re_match L pat_invite s"
  shows "re_match L pat_link s"
proof -
  from assms obtain a w t where s: "s = str ''http'' @ a @ str ''://t.me/+'' @ w @ t"
      and a: "a = [] \<or> a = str ''s''" and w: "1 \<le> length w" "list_all (is_word L) w"
      and t: "t = [] \<or> t = [10]"
    unfolding re_match_invite_iff by blast
  have "s = str ''http'' @ a @ str ''://t.me/'' @ (43 # w) @ [] @ t"
    using s by (simp add: str_def)
  moreover have "list_all (in_charset L (Or W (Ch 43))) (43 # w)"
    using w(2) by (simp add: list_all_iff)
  ultimately show ?thesis
    unfolding re_match_link_iff using a t by (intro exI [of _ a] exI [of _ "43 # w"] exI [of _ "[]"] exI [of _ t]) simp
qed

text \<open>
  Claim C10. Every string the private-invite pattern \<open>^https?://t\.me/\+[\w]+$\<close> matches
  is matched by the link pattern \<open>^https?://t\.me/[\w\+]+/?$\<close>, so the validator
  computes the same function with the third pattern removed.
\<close>

theorem third_pattern_subsumed:
  "(re_match L pat_invite s \<longrightarrow> re_match L pat_link s) \<and>
   validate_target L s = validate_target_two_patterns L s"
  using invite_imp_link [of L s]
  by (auto simp: validate_target_iff validate_target_two_patterns_def)

theorem third_pattern_subsumed_witness:
  "\<forall>L. re_match L pat_invite (str ''https://t.me/+inviteCode'') \<and>
       re_match L pat_link (str ''https://t.me/+inviteCode'') \<and>
       validate_target L (str ''https://t.me/+inviteCode'') \<and>
       validate_target_two_patterns L (str ''https://t.me/+inviteCode'')"
proof
  fix L
  have i: "re_match L pat_invite (str ''https://t.me/+inviteCode'')"
    by (simp add: re_match_def pat_invite_def lit_def opt_def str_def is_word_def)
  show "re_match L pat_invite (str ''https://t.me/+inviteCode'') \<and>
       re_match L pat_link (str ''https://t.me/+inviteCode'') \<and>
       validate_target L (str ''https://t.me/+inviteCode'') \<and>
       validate_target_two_patterns L (str ''https://t.me/+inviteCode'')"
    using i third_pattern_subsumed [of L "str ''https://t.me/+inviteCode''"]
    by (simp add: validate_target_iff)
qed

text \<open>
  Claim C3. The validator accepts \<open>@abcde\<close> and rejects \<open>@abcd\<close>, a name of more
  than 32 characters and the empty string. It also accepts \<open>@abcde\<close> followed by a
  newline, a character outside the word class: \<open>$\<close> matches before a final newline.
\<close>

theorem validate_target_trailing_newline:
  "validate_target L (str ''@abcde'' @ [10]) \<and> \<not> is_word L 10 \<and>
   validate_target L (str ''@abcde'') \<and> \<not> validate_target L (str ''@abcd'') \<and>
   \<not> validate_target L (str ''@this_is_way_too_long_for_the_limit_xx'') \<and> \<not> validate_target L []"
  by (simp add: validate_target_def re_match_def pat_username_def pat_link_def pat_invite_def
      lit_def opt_def str_def is_word_def)

lemma takeWhile_upto:
  "c \<notin> set xs \<Longrightarrow> takeWhile (\<lambda>x. x \<noteq> c) (xs @ c # ys) = xs"
  by (induction xs) auto

lemma split_unique:
  assumes "c \<notin> set xs" "c \<notin> set xs'" "xs @ c # ys = xs' @ c # ys'"
  shows "xs = xs' \<and> ys = ys'"
proof -
  have "takeWhile (\<lambda>x. x \<noteq> c) (xs @ c # ys) = takeWhile (\<lambda>x. x \<noteq> c) (xs' @ c # ys')"
    using assms(3) by simp
  then have "xs = xs'"
    using assms(1,2) by (simp add: takeWhile_upto)
  then show ?thesis using assms(3) by simp
qed

lemma link_scheme_host:
  assumes m: "re_match L pat_link (scheme @ str ''://'' @ host @ str ''/'' @ rest)"
    and sch: "58 \<notin> set scheme" and hst: "47 \<notin> set host"
  shows "(scheme = str ''http'' \<or> scheme = str ''https'') \<and> host = str ''t.me''"
proof -
  from m obtain a w b t where
      s: "scheme @ str ''://'' @ host @ str ''/'' @ rest = str ''http'' @ a @ str ''://t.me/'' @ w @ b @ t"
      and a: "a = [] \<or> a = str ''s''"
    unfolding re_match_link_iff by blast
  have 1: "scheme @ 58 # (str ''//'' @ host @ str ''/'' @ rest) =
           (str ''http'' @ a) @ 58 # (str ''//t.me/'' @ w @ b @ t)"
    using s by (simp add: str_def)
  have "58 \<notin> set (str ''http'' @ a)"
    using a by (auto simp: str_def)
  from split_unique [OF sch this 1]
  have sc: "scheme = str ''http'' @ a"
    and 2: "str ''//'' @ host @ str ''/'' @ rest = str ''//t.me/'' @ w @ b @ t"
    by simp_all
  have 3: "host @ 47 # rest = str ''t.me'' @ 47 # (w @ b @ t)"
    using 2 by (simp add: str_def)
  have "47 \<notin> set (str ''t.me'')"
    by (simp add: str_def)
  from split_unique [OF hst this 3] have "host = str ''t.me''"
    by simp
  then show ?thesis using sc a by (auto simp: str_def)
qed

lemma username_no_colon:
  assumes "re_match L pat_username s"
  shows "58 \<notin> set s"
proof -
  from assms obtain w t where s: "s = 64 # w @ t" and w: "list_all (is_word L) w"
      and t: "t = [] \<or> t = [10]"
    unfolding re_match_username_iff by blast
  have "\<not> is_word L 58"
    by (simp add: is_word_def)
  then have "58 \<notin> set w"
    using w by (auto simp: list_all_iff)
  then show ?thesis using s t by auto
qed

lemma link_accept:
  assumes "w \<noteq> []" "list_all (\<lambda>c. is_word L c \<or> c = 43) w"
    and a: "a = [] \<or> a = str ''s''" and b: "b = [] \<or> b = str ''/''"
  shows "re_match L pat_link (str ''http'' @ a @ str ''://t.me/'' @ w @ b)"
proof -
  have "list_all (in_charset L (Or W (Ch 43))) w"
    using assms(2) by (simp add: list_all_iff)
  moreover have "1 \<le> length w"
    using assms(1) by (cases w) auto
  ultimately show ?thesis
    unfolding re_match_link_iff using a b
    by (intro exI [of _ a] exI [of _ w] exI [of _ b] exI [of _ "[]"]) simp
qed

text \<open>
  Claim C4. The validator accepts \<open>http://t.me/\<close> or \<open>https://t.me/\<close> followed by
  one or more word or \<open>+\<close> characters and an optional slash (the private-invite form
  \<open>https://t.me/+code\<close> is one of these). A string \<open>scheme://host/rest\<close> that it
  accepts has the scheme \<open>http\<close> or \<open>https\<close> and the host \<open>t.me\<close>; so
  \<open>ftp://t.me/name\<close> and \<open>https://telegram.me/name\<close> are rejected.
\<close>

theorem validate_target_links:
  "(w \<noteq> [] \<and> list_all (\<lambda>c. is_word L c \<or> c = 43) w \<longrightarrow>
      validate_target L (str ''http://t.me/'' @ w) \<and>
      validate_target L (str ''https://t.me/'' @ w) \<and>
      validate_target L (str ''http://t.me/'' @ w @ str ''/'') \<and>
      validate_target L (str ''https://t.me/'' @ w @ str ''/'')) \<and>
   (validate_target L (scheme @ str ''://'' @ host @ str ''/'' @ rest) \<and>
      58 \<notin> set scheme \<and> 47 \<notin> set host \<longrightarrow>
      (scheme = str ''http'' \<or> scheme = str ''https'') \<and> host = str ''t.me'') \<and>
   \<not> validate_target L (str ''ftp://t.me/name'') \<and>
   \<not> validate_target L (str ''https://telegram.me/name'')"
proof (intro conjI impI)
  assume w: "w \<noteq> [] \<and> list_all (\<lambda>c. is_word L c \<or> c = 43) w"
  show "validate_target L (str ''http://t.me/'' @ w)"
    using link_accept [of w L "[]" "[]"] w by (simp add: validate_target_iff str_def)
  show "validate_target L (str ''https://t.me/'' @ w)"
    using link_accept [of w L "str ''s''" "[]"] w by (simp add: validate_target_iff str_def)
  show "validate_target L (str ''http://t.me/'' @ w @ str ''/'')"
    using link_accept [of w L "[]" "str ''/''"] w by (simp add: validate_target_iff str_def)
  show "validate_target L (str ''https://t.me/'' @ w @ str ''/'')"
    using link_accept [of w L "str ''s''" "str ''/''"] w by (simp add: validate_target_iff str_def)
next
  assume h: "validate_target L (scheme @ str ''://'' @ host @ str ''/'' @ rest) \<and>
      58 \<notin> set scheme \<and> 47 \<notin> set host"
  let ?s = "scheme @ str ''://'' @ host @ str ''/'' @ rest"
  have "58 \<in> set ?s"
    by (simp add: str_def)
  then have "\<not> re_match L pat_username ?s"
    using username_no_colon by blast
  then have "re_match L pat_link ?s"
    using h invite_imp_link by (auto simp: validate_target_iff)
  then have r: "(scheme = str ''http'' \<or> scheme = str ''https'') \<and> host = str ''t.me''"
    using link_scheme_host h by blast
  show "scheme = str ''http'' \<or> scheme = str ''https''" using r by simp
  show "host = str ''t.me''" using r by simp
next
  show "\<not> validate_target L (str ''ftp://t.me/name'')"
    by (simp add: validate_target_def re_match_def pat_username_def pat_link_def pat_invite_def
      lit_def opt_def str_def is_word_def)
  show "\<not> validate_target L (str ''https://telegram.me/name'')"
    by (simp add: validate_target_def re_match_def pat_username_def pat_link_def pat_invite_def
      lit_def opt_def str_def is_word_def)
qed

theorem validate_target_links_witness:
  "\<forall>L. validate_target L (str ''https://t.me/'' @ str ''+inviteCode'') \<and>
       validate_target L (str ''http://t.me/'' @ str ''name'' @ str ''/'') \<and>
       validate_target L (str ''https'' @ str ''://'' @ str ''t.me'' @ str ''/'' @ str ''name'') \<and>
       \<not> validate_target L (str ''ftp'' @ str ''://'' @ str ''t.me'' @ str ''/'' @ str ''name'') \<and>
       \<not> validate_target L (str ''https'' @ str ''://'' @ str ''telegram.me'' @ str ''/'' @ str ''name'')"
proof (intro allI conjI)
  fix L
  have w1: "str ''+inviteCode'' \<noteq> [] \<and> list_all (\<lambda>c. is_word L c \<or> c = 43) (str ''+inviteCode'')"
    by (simp add: str_def is_word_def)
  have w2: "str ''name'' \<noteq> [] \<and> list_all (\<lambda>c. is_word L c \<or> c = 43) (str ''name'')"
    by (simp add: str_def is_word_def)
  show "validate_target L (str ''https://t.me/'' @ str ''+inviteCode'')"
    using validate_target_links [of "str ''+inviteCode''" L] w1 by blast
  show "validate_target L (str ''http://t.me/'' @ str ''name'' @ str ''/'')"
    using validate_target_links [of "str ''name''" L] w2 by blast
  show "validate_target L (str ''https'' @ str ''://'' @ str ''t.me'' @ str ''/'' @ str ''name'')"
    using validate_target_links [of "str ''name''" L] w2 by (simp add: str_def)
  have n: "58 \<notin> set (str ''ftp'') \<and> 47 \<notin> set (str ''t.me'') \<and> str ''ftp'' \<noteq> str ''http'' \<and>
      str ''ftp'' \<noteq> str ''https''"
    by (simp add: str_def)
  show "\<not> validate_target L (str ''ftp'' @ str ''://'' @ str ''t.me'' @ str ''/'' @ str ''name'')"
    using validate_target_links [of "[]" L "str ''ftp''" "str ''t.me''" "str ''name''"] n by blast
  have m: "58 \<notin> set (str ''https'') \<and> 47 \<notin> set (str ''telegram.me'') \<and>
      str ''telegram.me'' \<noteq> str ''t.me''"
    by (simp add: str_def)
  show "\<not> validate_target L (str ''https'' @ str ''://'' @ str ''telegram.me'' @ str ''/'' @ str ''name'')"
    using validate_target_links [of "[]" L "str ''https''" "str ''telegram.me''" "str ''name''"] m
    by blast
qed

section \<open>Properties of the string operations\<close>

lemma contains_iff: "contains s sub \<longleftrightarrow> (\<exists>p q. s = p @ sub @ q)"
proof (induction s)
  case Nil
  then show ?case by simp
next
  case (Cons c cs)
  have "(\<exists>p q. c # cs = p @ sub @ q) \<longleftrightarrow> prefix sub (c # cs) \<or> (\<exists>p q. cs = p @ sub @ q)"
  proof
    assume "\<exists>p q. c # cs = p @ sub @ q"
    then obtain p q where pq: "c # cs = p @ sub @ q" by blast
    show "prefix sub (c # cs) \<or> (\<exists>p q. cs = p @ sub @ q)"
    proof (cases p)
      case Nil
      then show ?thesis using pq by (simp add: prefix_def)
    next
      case (Cons a p')
      then show ?thesis using pq by auto
    qed
  next
    assume "prefix sub (c # cs) \<or> (\<exists>p q. cs = p @ sub @ q)"
    then show "\<exists>p q. c # cs = p @ sub @ q"
    proof
      assume "prefix sub (c # cs)"
      then obtain q where "c # cs = sub @ q" by (auto simp: prefix_def)
      then show ?thesis by (intro exI [of _ "[]"] exI [of _ q]) simp
    next
      assume "\<exists>p q. cs = p @ sub @ q"
      then obtain p q where "cs = p @ sub @ q" by blast
      then show ?thesis by (intro exI [of _ "c # p"] exI [of _ q]) simp
    qed
  qed
  then show ?case using Cons.IH by simp
qed

lemma contains_mid: "contains (p @ sub @ q) sub"
  unfolding contains_iff by blast

lemma contains_set: "contains s sub \<Longrightarrow> set sub \<subseteq> set s"
  unfolding contains_iff by auto

lemma strip_Nil: "strip [] = []"
  by (simp add: strip_def)

lemma dropWhile_hd: "xs \<noteq> [] \<Longrightarrow> \<not> P (hd xs) \<Longrightarrow> dropWhile P xs = xs"
  by (cases xs) auto

lemma strip_id:
  assumes "s \<noteq> []" "\<not> isspace (hd s)" "\<not> isspace (last s)"
  shows "strip s = s"
proof -
  have 1: "dropWhile isspace s = s"
    using assms(1,2) by (rule dropWhile_hd)
  have "rev s \<noteq> []" "\<not> isspace (hd (rev s))"
    using assms(1,3) by (simp_all add: hd_rev)
  then have "dropWhile isspace (rev s) = rev s"
    by (rule dropWhile_hd)
  then show ?thesis unfolding strip_def 1 by simp
qed

lemma strip_spaces:
  assumes a: "list_all isspace a" and b: "list_all isspace b"
  shows "strip (a @ t @ b) = strip t"
proof -
  have l: "dropWhile isspace (a @ t @ b) = dropWhile isspace (t @ b)"
    using a by (simp add: list_all_iff dropWhile_append2)
  have rb: "dropWhile isspace (rev b @ ys) = dropWhile isspace ys" for ys
    using b by (auto simp: list_all_iff intro!: dropWhile_append2)
  show ?thesis
  proof (cases "list_all isspace t")
    case True
    then have e1: "dropWhile isspace (t @ b) = []" and e2: "dropWhile isspace t = []"
      using b by (auto simp: list_all_iff)
    show ?thesis unfolding strip_def l e1 e2 by simp
  next
    case False
    then obtain x where "x \<in> set t" "\<not> isspace x"
      by (auto simp: list_all_iff)
    then have "dropWhile isspace (t @ b) = dropWhile isspace t @ b"
      by (rule dropWhile_append1)
    then show ?thesis unfolding strip_def l by (simp add: rb)
  qed
qed

section \<open>The validator on usernames and on stripped input\<close>

text \<open>
  On a string that begins with \<open>@\<close> the validator accepts exactly 5 to 32 word
  characters, optionally followed by one newline. \<open>report_target\<close> validates the
  stripped text of the message, which cannot end in a newline, so there the optional
  newline never occurs.
\<close>

lemma validate_target_at:
  "validate_target L (64 # r) \<longleftrightarrow>
     (\<exists>w t. r = w @ t \<and> 5 \<le> length w \<and> length w \<le> 32 \<and> list_all (is_word L) w \<and>
            (t = [] \<or> t = [10]))"
proof -
  have "\<not> re_match L pat_link (64 # r)"
    unfolding re_match_link_iff by (simp add: str_def)
  moreover have "re_match L pat_username (64 # r) \<longleftrightarrow>
     (\<exists>w t. r = w @ t \<and> 5 \<le> length w \<and> length w \<le> 32 \<and> list_all (is_word L) w \<and>
            (t = [] \<or> t = [10]))"
    unfolding re_match_username_iff by simp
  ultimately show ?thesis
    using invite_imp_link [of L "64 # r"] by (auto simp: validate_target_iff)
qed

lemma strip_last: "strip m \<noteq> [] \<Longrightarrow> \<not> isspace (last (strip m))"
proof -
  assume n: "strip m \<noteq> []"
  let ?d = "dropWhile isspace (rev (dropWhile isspace m))"
  have "?d \<noteq> []" using n by (simp add: strip_def)
  then have "\<not> isspace (hd ?d)" by (rule hd_dropWhile)
  moreover have "last (strip m) = hd ?d"
    using \<open>?d \<noteq> []\<close> by (simp add: strip_def last_rev)
  ultimately show ?thesis by simp
qed

lemma stripped_username_exact:
  assumes "validate_target L (strip m)" and "strip m = 64 # r"
  shows "5 \<le> length r \<and> length r \<le> 32 \<and> list_all (is_word L) r"
proof -
  have "validate_target L (64 # r)"
    using assms by simp
  then obtain w t where wt: "r = w @ t" "5 \<le> length w" "length w \<le> 32"
      "list_all (is_word L) w" "t = [] \<or> t = [10]"
    unfolding validate_target_at by blast
  have "\<not> isspace (last (strip m))"
    using assms(2) by (intro strip_last) simp
  moreover have "isspace 10" by (simp add: isspace_def)
  ultimately have "t = []"
    using wt(1,5) assms(2) by auto
  then show ?thesis using wt by simp
qed

section \<open>Cancelling\<close>

lemma report_not_state_handled:
  "first_match (states e s) (u\<lparr>body := Command (str ''cancel'') t\<rparr>) = None"
  by (cases s) (simp_all add: is_callback_def is_text_def is_command_def str_def)

lemma cancel_matches:
  "re_match L pat_type (str ''cancel'')" "re_match L pat_reason (str ''cancel'')"
  "re_match L pat_confirmation (str ''cancel'')" "re_match L pat_confirmation (str ''confirm'')"
  by (simp_all add: re_match_def pat_type_def pat_reason_def pat_confirmation_def lit_def str_def)

text \<open>
  Claim C1. The cancel button in the states REPORT_TYPE, REPORT_REASON and CONFIRMATION and
  the \<open>/cancel\<close> command in every state end the conversation, and the only effect is
  the answer to the button and the cancellation message: nothing is sent by
  \<open>save_report\<close>. But \<open>context.user_data\<close> is left as it was, so a draft stored
  before the cancellation (here the report type \<open>group\<close>) is still there afterwards;
  only the confirm branch of \<open>confirmation_callback\<close> clears it.
\<close>

theorem cancel_keeps_user_data:
  "conv_handler e (Some REPORT_TYPE) (u\<lparr>body := CallbackQuery (str ''cancel'')\<rparr>) w =
     Some (None, emit (Edit ([10060] @ str '' Report cancelled.'') [] Plain) (emit Answer w)) \<and>
   conv_handler e (Some REPORT_REASON) (u\<lparr>body := CallbackQuery (str ''cancel'')\<rparr>) w =
     Some (None, emit (Edit ([10060] @ str '' Report cancelled.'') [] Plain) (emit Answer w)) \<and>
   conv_handler e (Some CONFIRMATION) (u\<lparr>body := CallbackQuery (str ''cancel'')\<rparr>) w =
     Some (None, emit (Edit ([10060] @ str '' Report cancelled.'') [] Plain) (emit Answer w)) \<and>
   conv_handler e (Some s) (u\<lparr>body := Command (str ''cancel'') t\<rparr>) w =
     Some (None, emit (Reply ([10060] @ str '' Operation cancelled. Use /report to start a new '' @
                        str ''report.'') [] Plain) w) \<and>
   user_data (emit a (emit b w)) = user_data w \<and> user_data (emit a w) = user_data w \<and>
   user_data (emit a (emit b (store Report_type (str ''group'') w))) Report_type =
     Some (str ''group'')"
  by (simp add: conv_handler_def is_callback_def cancel_matches report_type_callback_def
      report_reason_callback_def confirmation_callback_def report_not_state_handled
      fallbacks_def is_command_def cancel_def message_text_def emit_def store_def)

section \<open>Confirming and dispatching\<close>

lemma sends_append: "sends (xs @ ys) = sends xs @ sends ys"
  by (induction xs rule: sends.induct) simp_all

lemma emit_fields:
  "user_data (emit a w) = user_data w" "user_cooldowns (emit a w) = user_cooldowns w"
  "trace (emit a w) = trace w @ [a]"
  by (simp_all add: emit_def)

lemma send_to_admins_fields:
  "user_data (send_to_admins e k text uid as w) = user_data w \<and>
   user_cooldowns (send_to_admins e k text uid as w) = user_cooldowns w \<and>
   sends (trace (send_to_admins e k text uid as w)) = sends (trace w) @ map ChatId as"
proof (induction as arbitrary: k w)
  case Nil
  then show ?case by simp
next
  case (Cons a as)
  show ?case
    by (cases "send_fails e k") (simp_all add: Cons.IH Let_def emit_fields sends_append)
qed

lemma complete_iff:
  "complete w \<longleftrightarrow>
     (\<exists>ty label tg rs dt. user_data w Report_type = Some ty \<and> REPORT_TYPES ty = Some label \<and>
        user_data w Report_target = Some tg \<and> user_data w Report_reason = Some rs \<and>
        user_data w Report_details = Some dt)"
  by (auto simp: complete_def split: option.splits)

lemma save_report_complete:
  assumes "complete w"
  shows "\<exists>w1. save_report e u w = Inr w1 \<and> user_data w1 = user_data w \<and>
           user_cooldowns w1 = user_cooldowns w \<and>
           sends (trace w1) = sends (trace w) @ recipients (cfg e)"
proof -
  from assms obtain ty label tg rs dt where d: "user_data w Report_type = Some ty"
      "REPORT_TYPES ty = Some label" "user_data w Report_target = Some tg"
      "user_data w Report_reason = Some rs" "user_data w Report_details = Some dt"
    unfolding complete_iff by blast
  show ?thesis
  proof (cases "REPORT_CHANNEL_ID (cfg e)")
    case None
    then show ?thesis
      using d by (simp add: save_report_def recipients_def send_to_admins_fields)
  next
    case (Some channel)
    then show ?thesis
      using d
      by (cases "send_fails e 0")
        (simp_all add: save_report_def recipients_def send_to_admins_fields emit_fields
          sends_append Let_def)
  qed
qed

lemma complete_emit: "complete (emit a w) = complete w"
  by (simp add: complete_iff emit_fields)

lemma confirm_matches: "re_match L pat_confirmation (str ''confirm'')"
  by (simp add: re_match_def pat_confirmation_def lit_def str_def)

lemma confirm_not_cancel: "str ''confirm'' \<noteq> str ''cancel''"
  by (simp add: str_def)

lemma confirmation_callback_confirm:
  assumes "body u = CallbackQuery (str ''confirm'')" and "complete w"
  shows "\<exists>w1. save_report e u (emit Answer w) = Inr w1 \<and>
           sends (trace w1) = sends (trace w) @ recipients (cfg e) \<and>
           confirmation_callback e u w =
             (Returned END,
              \<lparr>user_data = Map.empty,
               user_cooldowns = (user_cooldowns w)
                 (effective_user_id u \<mapsto> now e 2 + timedelta_of_seconds REPORT_COOLDOWN),
               trace = trace w1 @
                 [Edit ([9989] @ str '' **Report submitted successfully!**'' @ [10, 10] @
                        str ''Thank you for helping keep Telegram safe. Our '' @
                        str ''team will review your report.'' @ [10] @
                        str ''You can use /report to submit another report.'') [] Markdown]\<rparr>)"
proof -
  have "complete (emit Answer w)"
    using assms(2) by (simp add: complete_emit)
  from save_report_complete [OF this, of e u]
  obtain w1 where w1: "save_report e u (emit Answer w) = Inr w1"
      "user_data w1 = user_data (emit Answer w)"
      "user_cooldowns w1 = user_cooldowns (emit Answer w)"
      "sends (trace w1) = sends (trace (emit Answer w)) @ recipients (cfg e)"
    by blast
  have "sends (trace w1) = sends (trace w) @ recipients (cfg e)"
    using w1(4) by (simp add: emit_fields sends_append)
  moreover have "confirmation_callback e u w =
             (Returned END,
              \<lparr>user_data = Map.empty,
               user_cooldowns = (user_cooldowns w)
                 (effective_user_id u \<mapsto> now e 2 + timedelta_of_seconds REPORT_COOLDOWN),
               trace = trace w1 @
                 [Edit ([9989] @ str '' **Report submitted successfully!**'' @ [10, 10] @
                        str ''Thank you for helping keep Telegram safe. Our '' @
                        str ''team will review your report.'' @ [10] @
                        str ''You can use /report to submit another report.'') [] Markdown]\<rparr>)"
    using assms(1) w1(1,3)
    by (simp add: confirmation_callback_def confirm_not_cancel emit_def)
  ultimately show ?thesis using w1(1) by blast
qed

lemma confirmation_callback_submits:
  assumes "body u = CallbackQuery (str ''confirm'')" and "complete w"
  shows "fst (confirmation_callback e u w) = Returned END \<and>
         sends (trace (snd (confirmation_callback e u w))) = sends (trace w) @ recipients (cfg e) \<and>
         last (trace (snd (confirmation_callback e u w))) =
           Edit ([9989] @ str '' **Report submitted successfully!**'' @ [10, 10] @
                 str ''Thank you for helping keep Telegram safe. Our '' @
                 str ''team will review your report.'' @ [10] @
                 str ''You can use /report to submit another report.'') [] Markdown \<and>
         user_cooldowns (snd (confirmation_callback e u w)) =
           (user_cooldowns w)(effective_user_id u \<mapsto> now e 2 + 60 * 1000000) \<and>
         user_data (snd (confirmation_callback e u w)) = Map.empty"
proof -
  from confirmation_callback_confirm [OF assms, of e] show ?thesis
    by (elim exE conjE) (simp add: sends_append timedelta_of_seconds_def REPORT_COOLDOWN_def)
qed

lemma conv_handler_confirm:
  assumes "body u = CallbackQuery (str ''confirm'')"
    and "fst (confirmation_callback e u w) = Returned END"
  shows "conv_handler e (Some CONFIRMATION) u w = Some (None, snd (confirmation_callback e u w))"
proof -
  have "is_callback (lib e) pat_confirmation u"
    using assms(1) by (simp add: is_callback_def confirm_matches)
  then show ?thesis
    using assms(2) by (cases "confirmation_callback e u w") (simp add: conv_handler_def)
qed

text \<open>
  Claim C6. Pressing confirm in the state CONFIRMATION with a complete draft ends the
  conversation as submitted. \<open>save_report\<close> runs once: the trace gains exactly one
  \<open>send_message\<close> per configured recipient (the channel, then each administrator).
  The user's cooldown is set to 60 seconds after the time read at the confirmation
  (\<open>now e 2\<close>, the third reading of the clock, after the two of the report text), and
  \<open>user_data\<close> is cleared.
\<close>

theorem confirm_submits:
  assumes "body u = CallbackQuery (str ''confirm'')" and "complete w"
  shows "conv_handler e (Some CONFIRMATION) u w = Some (None, snd (confirmation_callback e u w)) \<and>
         sends (trace (snd (confirmation_callback e u w))) = sends (trace w) @ recipients (cfg e) \<and>
         user_cooldowns (snd (confirmation_callback e u w)) =
           (user_cooldowns w)(effective_user_id u \<mapsto> now e 2 + 60 * 1000000) \<and>
         user_data (snd (confirmation_callback e u w)) = Map.empty"
  using confirmation_callback_submits [OF assms, of e] conv_handler_confirm [OF assms(1), of e w]
  by simp

lemma example_complete: "complete example_world"
  by (simp add: complete_def example_world_def example_draft_def REPORT_TYPES_def str_def)

lemma example_recipients:
  "recipients (cfg example_env) = [ChatName (str ''-1001''), ChatId 11, ChatId 22]"
  by (simp add: recipients_def example_env_def str_def)

lemma example_no_sends: "sends (trace example_world) = []"
  by (simp add: example_world_def)

lemma example_body: "body (example_update b) = b"
  by (simp add: example_update_def)

theorem confirm_submits_witness:
  "body (example_update (CallbackQuery (str ''confirm''))) = CallbackQuery (str ''confirm'') \<and>
   complete example_world \<and>
   conv_handler example_env (Some CONFIRMATION)
     (example_update (CallbackQuery (str ''confirm''))) example_world =
     Some (None, snd (confirmation_callback example_env
       (example_update (CallbackQuery (str ''confirm''))) example_world)) \<and>
   sends (trace (snd (confirmation_callback example_env
       (example_update (CallbackQuery (str ''confirm''))) example_world))) =
     [ChatName (str ''-1001''), ChatId 11, ChatId 22] \<and>
   user_cooldowns (snd (confirmation_callback example_env
       (example_update (CallbackQuery (str ''confirm''))) example_world)) 7 = Some 65000002 \<and>
   user_data (snd (confirmation_callback example_env
       (example_update (CallbackQuery (str ''confirm''))) example_world)) = Map.empty"
proof -
  note t = confirm_submits [where u = "example_update (CallbackQuery (str ''confirm''))"
      and w = example_world and e = example_env, OF example_body example_complete]
  have c: "((user_cooldowns example_world)
      (effective_user_id (example_update (CallbackQuery (str ''confirm''))) \<mapsto>
         now example_env 2 + 60 * 1000000)) 7 = Some 65000002"
    by (simp add: example_update_def example_env_def)
  show ?thesis
    using t c by (simp add: example_body example_complete example_recipients example_no_sends)
qed

text \<open>
  Claim C8. Whatever calls of \<open>send_message\<close> fail (\<open>f\<close> is arbitrary), a confirmed
  report is sent to the channel, if configured, and to every administrator, in order; a
  failure of the channel or of one administrator stops none of the later calls. The
  handler still ends the conversation, its last action is the success message to the
  submitter, and the cooldown is set.
\<close>

theorem fan_out_survives_failures:
  assumes "body u = CallbackQuery (str ''confirm'')" and "complete w"
  shows "fst (confirmation_callback (e\<lparr>send_fails := f\<rparr>) u w) = Returned END \<and>
         sends (trace (snd (confirmation_callback (e\<lparr>send_fails := f\<rparr>) u w))) =
           sends (trace w) @ recipients (cfg e) \<and>
         last (trace (snd (confirmation_callback (e\<lparr>send_fails := f\<rparr>) u w))) =
           Edit ([9989] @ str '' **Report submitted successfully!**'' @ [10, 10] @
                 str ''Thank you for helping keep Telegram safe. Our '' @
                 str ''team will review your report.'' @ [10] @
                 str ''You can use /report to submit another report.'') [] Markdown \<and>
         user_cooldowns (snd (confirmation_callback (e\<lparr>send_fails := f\<rparr>) u w))
             (effective_user_id u) =
           Some (now e 2 + timedelta_of_seconds REPORT_COOLDOWN)"
  using confirmation_callback_submits [OF assms, of "e\<lparr>send_fails := f\<rparr>"]
  by (simp add: timedelta_of_seconds_def REPORT_COOLDOWN_def)

theorem fan_out_survives_failures_witness:
  "body (example_update (CallbackQuery (str ''confirm''))) = CallbackQuery (str ''confirm'') \<and>
   complete example_world \<and>
   (\<forall>f. sends (trace (snd (confirmation_callback (example_env\<lparr>send_fails := f\<rparr>)
       (example_update (CallbackQuery (str ''confirm''))) example_world))) =
     [ChatName (str ''-1001''), ChatId 11, ChatId 22] \<and>
     fst (confirmation_callback (example_env\<lparr>send_fails := f\<rparr>)
       (example_update (CallbackQuery (str ''confirm''))) example_world) = Returned END \<and>
     user_cooldowns (snd (confirmation_callback (example_env\<lparr>send_fails := f\<rparr>)
       (example_update (CallbackQuery (str ''confirm''))) example_world)) 7 = Some 65000002)"
proof (intro conjI allI)
  fix f
  note t = fan_out_survives_failures [where u = "example_update (CallbackQuery (str ''confirm''))"
      and w = example_world and e = example_env and f = f, OF example_body example_complete]
  have "cfg (example_env\<lparr>send_fails := f\<rparr>) = cfg example_env"
    by simp
  then show "sends (trace (snd (confirmation_callback (example_env\<lparr>send_fails := f\<rparr>)
       (example_update (CallbackQuery (str ''confirm''))) example_world))) =
     [ChatName (str ''-1001''), ChatId 11, ChatId 22]"
    using t by (simp add: example_recipients example_no_sends)
  show "fst (confirmation_callback (example_env\<lparr>send_fails := f\<rparr>)
       (example_update (CallbackQuery (str ''confirm''))) example_world) = Returned END"
    using t by simp
  show "user_cooldowns (snd (confirmation_callback (example_env\<lparr>send_fails := f\<rparr>)
       (example_update (CallbackQuery (str ''confirm''))) example_world)) 7 = Some 65000002"
    using t by (simp add: example_env_def example_update_def timedelta_of_seconds_def
        REPORT_COOLDOWN_def)
qed (simp_all add: example_body example_complete)

section \<open>Starting a report\<close>

lemma report_is_entry:
  "body u = Command (str ''report'') t \<Longrightarrow>
   conv_handler e None u w =
     (case report_command e u w of
        (Returned END, w') \<Rightarrow> Some (None, w')
      | (Returned (State s'), w') \<Rightarrow> Some (Some s', w')
      | (Raised err, w') \<Rightarrow> Some (None, w'))"
  by (simp add: conv_handler_def entry_points_def is_command_def)

lemma timedelta_seconds_floor:
  "0 \<le> d \<Longrightarrow> d < 86400 * 1000000 \<Longrightarrow> timedelta_seconds d = d div 1000000"
  unfolding timedelta_seconds_def by (intro mod_pos_pos_trivial) auto

text \<open>
  \<open>/report\<close> outside a conversation. When the user's cooldown record lies strictly after
  the first reading of the clock, the command only adds the wait message to the trace and
  the conversation stays closed: no state, no keyboard, \<open>user_data\<close> and the cooldowns
  untouched. The number in the message is \<open>timedelta.seconds\<close> of the record minus the
  second reading of the clock: the whole seconds left when the second reading is not past
  the record, and 86399 when the record has passed by up to a second in between. With no
  record, or a record not after the first reading, the command shows the type options and
  the conversation is in REPORT_TYPE.
\<close>

lemma report_command_flow:
  assumes "body u = Command (str ''report'') t"
  shows "(user_cooldowns w (effective_user_id u) = Some cooldown_end \<and> now e 0 < cooldown_end \<longrightarrow>
            conv_handler e None u w =
              Some (None,
                w\<lparr>trace := trace w @
                  [Reply ([9200] @ str '' Please wait '' @
                          str_of_int (timedelta_seconds (cooldown_end - now e 1)) @
                          str '' seconds before creating another report.'') [] Plain]\<rparr>)) \<and>
         (now e 1 \<le> cooldown_end \<and> cooldown_end - now e 1 < 86400 * 1000000 \<longrightarrow>
            timedelta_seconds (cooldown_end - now e 1) = (cooldown_end - now e 1) div 1000000) \<and>
         (cooldown_end < now e 1 \<and> now e 1 - cooldown_end \<le> 1000000 \<longrightarrow>
            timedelta_seconds (cooldown_end - now e 1) = 86399) \<and>
         (user_cooldowns w (effective_user_id u) = None \<or>
          user_cooldowns w (effective_user_id u) = Some cooldown_end \<and> cooldown_end \<le> now e 0 \<longrightarrow>
            conv_handler e None u w =
              Some (Some REPORT_TYPE,
                w\<lparr>trace := trace w @
                  [Reply ([128269] @ str '' **What would you like to report?**'' @
                          [10, 10] @ str ''Please select one of the options below:'')
                     type_keyboard Markdown]\<rparr>))"
proof (intro conjI impI)
  assume "cooldown_end < now e 1 \<and> now e 1 - cooldown_end \<le> 1000000"
  then have "(cooldown_end - now e 1 + 1000000) div 1000000 = 0"
    by (intro div_pos_pos_trivial) auto
  moreover have "(cooldown_end - now e 1 + 1000000) div 1000000 =
      (cooldown_end - now e 1) div 1000000 + 1"
    by simp
  ultimately have "(cooldown_end - now e 1) div 1000000 = - 1"
    by linarith
  then show "timedelta_seconds (cooldown_end - now e 1) = 86399"
    by (simp add: timedelta_seconds_def)
qed (use assms in \<open>auto simp: report_is_entry report_command_def message_text_def Let_def
      timedelta_seconds_floor emit_def\<close>)

lemma str_of_int_86399: "str_of_int 86399 = str ''86399''"
  by (simp add: str_of_int_def str_def)

lemma str_of_int_59: "str_of_int 59 = str ''59''"
  by (simp add: str_of_int_def str_def)

text \<open>
  Claim C5. The record of user 7 is at 5.000001 s. The first reading of the clock is
  5.000000 s, so the record is strictly in the future when \<open>/report\<close> arrives and the
  command takes the cooldown branch: the conversation stays closed and nothing but the wait
  message is added. The second reading, from which the message is computed, is 5.000002 s,
  past the record, and the message says to wait 86399 seconds, not the time remaining
  (less than one second). With the record at 65 s and readings of 5.000000 s and
  5.000001 s, the message says 59 seconds, the whole seconds remaining.
\<close>

theorem report_command_race:
  "now (example_env\<lparr>now := \<lambda>k. 5000000 + 2 * int k\<rparr>) 0 < 5000001 \<and>
   conv_handler (example_env\<lparr>now := \<lambda>k. 5000000 + 2 * int k\<rparr>) None
       (example_update (Command (str ''report'') (str ''/report'')))
       \<lparr>user_data = Map.empty, user_cooldowns = [7 \<mapsto> 5000001], trace = []\<rparr> =
     Some (None,
       \<lparr>user_data = Map.empty, user_cooldowns = [7 \<mapsto> 5000001],
        trace = [Reply ([9200] @ str '' Please wait 86399 seconds before creating another report.'')
                   [] Plain]\<rparr>) \<and>
   conv_handler example_env None
       (example_update (Command (str ''report'') (str ''/report'')))
       \<lparr>user_data = Map.empty, user_cooldowns = [7 \<mapsto> 65000000], trace = []\<rparr> =
     Some (None,
       \<lparr>user_data = Map.empty, user_cooldowns = [7 \<mapsto> 65000000],
        trace = [Reply ([9200] @ str '' Please wait 59 seconds before creating another report.'')
                   [] Plain]\<rparr>)"
proof (intro conjI)
  let ?u = "example_update (Command (str ''report'') (str ''/report''))"
  have b: "body ?u = Command (str ''report'') (str ''/report'')" "effective_user_id ?u = 7"
    by (simp_all add: example_update_def)
  show "now (example_env\<lparr>now := \<lambda>k. 5000000 + 2 * int k\<rparr>) 0 < 5000001"
    by simp
  have t1: "timedelta_seconds (- 1) = 86399"
    by (simp add: timedelta_seconds_def)
  have m1: "[9200] @ str '' Please wait '' @ str ''86399'' @
        str '' seconds before creating another report.'' =
      [9200] @ str '' Please wait 86399 seconds before creating another report.''"
    by (simp add: str_def)
  show "conv_handler (example_env\<lparr>now := \<lambda>k. 5000000 + 2 * int k\<rparr>) None ?u
       \<lparr>user_data = Map.empty, user_cooldowns = [7 \<mapsto> 5000001], trace = []\<rparr> =
     Some (None,
       \<lparr>user_data = Map.empty, user_cooldowns = [7 \<mapsto> 5000001],
        trace = [Reply ([9200] @ str '' Please wait 86399 seconds before creating another report.'')
                   [] Plain]\<rparr>)"
    unfolding m1 [symmetric]
    by (simp add: report_is_entry [OF b(1)] report_command_def message_text_def b Let_def
        emit_def t1 str_of_int_86399)
  have t2: "timedelta_seconds 59999999 = 59"
    by (simp add: timedelta_seconds_def)
  have m2: "[9200] @ str '' Please wait '' @ str ''59'' @
        str '' seconds before creating another report.'' =
      [9200] @ str '' Please wait 59 seconds before creating another report.''"
    by (simp add: str_def)
  show "conv_handler example_env None ?u
       \<lparr>user_data = Map.empty, user_cooldowns = [7 \<mapsto> 65000000], trace = []\<rparr> =
     Some (None,
       \<lparr>user_data = Map.empty, user_cooldowns = [7 \<mapsto> 65000000],
        trace = [Reply ([9200] @ str '' Please wait 59 seconds before creating another report.'')
                   [] Plain]\<rparr>)"
    unfolding m2 [symmetric]
    by (simp add: report_is_entry [OF b(1)] report_command_def message_text_def b Let_def
        emit_def example_env_def t2 str_of_int_59)
qed

section \<open>The confirmation summary\<close>

lemma confirm_report_complete:
  assumes "user_data w Report_type = Some ty" "REPORT_TYPES ty = Some label"
    "user_data w Report_target = Some tg" "user_data w Report_reason = Some rs"
    "user_data w Report_details = Some dt"
  shows "confirm_report e u w =
     (Returned (State CONFIRMATION),
      emit ((if message_text u \<noteq> None then Reply else Edit)
              (summary (lib e) label tg rs dt) confirm_keyboard Markdown) w)"
  using assms by (simp add: confirm_report_def)

lemma confirm_report_reaches:
  "fst (confirm_report e u w) = Returned (State CONFIRMATION) \<Longrightarrow> complete w"
  by (auto simp: confirm_report_def complete_def split: option.splits)

lemma summary_contains:
  "contains (summary L label tg rs dt) label"
  "contains (summary L label tg rs dt) tg"
  "contains (summary L label tg rs dt) (capitalize L rs)"
  "contains (summary L label tg rs dt) (take 200 dt)"
proof -
  have 1: "summary L label tg rs dt =
      ([128203] @ str '' **Please confirm your report:**'' @ [10, 10] @ str ''**Type:** '') @ label @
      ([10] @ str ''**Target:** '' @ tg @ [10] @ str ''**Reason:** '' @ capitalize L rs @ [10] @
       str ''**Details:** '' @ take 200 dt)"
    by (simp add: summary_def)
  have 2: "summary L label tg rs dt =
      ([128203] @ str '' **Please confirm your report:**'' @ [10, 10] @ str ''**Type:** '' @ label @
       [10] @ str ''**Target:** '') @ tg @
      ([10] @ str ''**Reason:** '' @ capitalize L rs @ [10] @ str ''**Details:** '' @ take 200 dt)"
    by (simp add: summary_def)
  have 3: "summary L label tg rs dt =
      ([128203] @ str '' **Please confirm your report:**'' @ [10, 10] @ str ''**Type:** '' @ label @
       [10] @ str ''**Target:** '' @ tg @ [10] @ str ''**Reason:** '') @ capitalize L rs @
      ([10] @ str ''**Details:** '' @ take 200 dt)"
    by (simp add: summary_def)
  have 4: "summary L label tg rs dt =
      ([128203] @ str '' **Please confirm your report:**'' @ [10, 10] @ str ''**Type:** '' @ label @
       [10] @ str ''**Target:** '' @ tg @ [10] @ str ''**Reason:** '' @ capitalize L rs @
       [10] @ str ''**Details:** '') @ take 200 dt @ []"
    by (simp add: summary_def)
  show "contains (summary L label tg rs dt) label" unfolding 1 by (rule contains_mid)
  show "contains (summary L label tg rs dt) tg" unfolding 2 by (rule contains_mid)
  show "contains (summary L label tg rs dt) (capitalize L rs)" unfolding 3 by (rule contains_mid)
  show "contains (summary L label tg rs dt) (take 200 dt)" unfolding 4 by (rule contains_mid)
qed

text \<open>
  Claim C2, as the code has it. \<open>confirm_report\<close> reaches CONFIRMATION only with a
  complete draft, and then shows the summary with the confirm and cancel buttons. The
  summary contains the label of the stored type (\<open>REPORT_TYPES[report_type]\<close>, not the
  stored key), the stored target verbatim, the stored reason capitalized and the first 200
  characters of the stored details, so all of the details when they have at most 200
  characters.
\<close>

theorem confirm_report_summary:
  "(fst (confirm_report e u w) = Returned (State CONFIRMATION) \<longrightarrow> complete w) \<and>
   (user_data w Report_type = Some ty \<and> REPORT_TYPES ty = Some label \<and>
    user_data w Report_target = Some tg \<and> user_data w Report_reason = Some rs \<and>
    user_data w Report_details = Some dt \<longrightarrow>
      confirm_report e u w =
        (Returned (State CONFIRMATION),
         emit ((if message_text u \<noteq> None then Reply else Edit)
                 (summary (lib e) label tg rs dt) confirm_keyboard Markdown) w) \<and>
      contains (summary (lib e) label tg rs dt) label \<and>
      contains (summary (lib e) label tg rs dt) tg \<and>
      contains (summary (lib e) label tg rs dt) (capitalize (lib e) rs) \<and>
      contains (summary (lib e) label tg rs dt) (take 200 dt) \<and>
      (length dt \<le> 200 \<longrightarrow> contains (summary (lib e) label tg rs dt) dt))"
proof (intro conjI impI)
  assume "fst (confirm_report e u w) = Returned (State CONFIRMATION)"
  then show "complete w" by (rule confirm_report_reaches)
next
  assume a: "user_data w Report_type = Some ty \<and> REPORT_TYPES ty = Some label \<and>
    user_data w Report_target = Some tg \<and> user_data w Report_reason = Some rs \<and>
    user_data w Report_details = Some dt"
  then show "confirm_report e u w =
        (Returned (State CONFIRMATION),
         emit ((if message_text u \<noteq> None then Reply else Edit)
                 (summary (lib e) label tg rs dt) confirm_keyboard Markdown) w)"
    by (simp add: confirm_report_def)
  assume "length dt \<le> 200"
  then have "take 200 dt = dt" by simp
  then show "contains (summary (lib e) label tg rs dt) dt"
    using summary_contains(4) [of "lib e" label tg rs dt] by simp
qed (rule summary_contains)+

lemma capitalize_spam: "capitalize L (str ''spam'') = str ''Spam''"
  by (simp add: capitalize_def str_def ascii_upper_def ascii_lower_def)

lemma example_draft_fields:
  "user_data example_world Report_type = Some (str ''group'')"
  "REPORT_TYPES (str ''group'') = Some ([128101] @ str '' Group'')"
  "user_data example_world Report_target = Some (str ''https://t.me/examplegroup'')"
  "user_data example_world Report_reason = Some (str ''spam'')"
  "user_data example_world Report_details = Some (str ''test'')"
  by (simp_all add: example_world_def example_draft_def REPORT_TYPES_def str_def)

theorem confirm_report_summary_witness:
  "confirm_report example_env (example_update (Text (str ''test''))) example_world =
     (Returned (State CONFIRMATION),
      emit (Reply (summary ascii_lib ([128101] @ str '' Group'') (str ''https://t.me/examplegroup'')
                     (str ''spam'') (str ''test'')) confirm_keyboard Markdown) example_world) \<and>
   summary ascii_lib ([128101] @ str '' Group'') (str ''https://t.me/examplegroup'')
       (str ''spam'') (str ''test'') =
     [128203] @ str '' **Please confirm your report:**'' @ [10, 10] @
     str ''**Type:** '' @ [128101] @ str '' Group'' @ [10] @
     str ''**Target:** https://t.me/examplegroup'' @ [10] @
     str ''**Reason:** Spam'' @ [10] @ str ''**Details:** test'' \<and>
   contains (summary ascii_lib ([128101] @ str '' Group'') (str ''https://t.me/examplegroup'')
       (str ''spam'') (str ''test'')) ([128101] @ str '' Group'') \<and>
   contains (summary ascii_lib ([128101] @ str '' Group'') (str ''https://t.me/examplegroup'')
       (str ''spam'') (str ''test'')) (str ''https://t.me/examplegroup'') \<and>
   contains (summary ascii_lib ([128101] @ str '' Group'') (str ''https://t.me/examplegroup'')
       (str ''spam'') (str ''test'')) (str ''Spam'') \<and>
   contains (summary ascii_lib ([128101] @ str '' Group'') (str ''https://t.me/examplegroup'')
       (str ''spam'') (str ''test'')) (str ''test'')"
proof -
  note t = confirm_report_summary [of example_env "example_update (Text (str ''test''))"
      example_world "str ''group''" "[128101] @ str '' Group''" "str ''https://t.me/examplegroup''"
      "str ''spam''" "str ''test''"]
  have l: "lib example_env = ascii_lib" "length (str ''test'') \<le> 200"
      "message_text (example_update (Text (str ''test''))) \<noteq> None"
      "take 200 (str ''test'') = str ''test''"
    by (simp_all add: example_env_def str_def message_text_def example_update_def)
  have s: "summary ascii_lib ([128101] @ str '' Group'') (str ''https://t.me/examplegroup'')
       (str ''spam'') (str ''test'') =
     [128203] @ str '' **Please confirm your report:**'' @ [10, 10] @
     str ''**Type:** '' @ [128101] @ str '' Group'' @ [10] @
     str ''**Target:** https://t.me/examplegroup'' @ [10] @
     str ''**Reason:** Spam'' @ [10] @ str ''**Details:** test''"
    by (simp add: summary_def capitalize_spam) (simp add: str_def)
  show ?thesis
    using t s unfolding l capitalize_spam by (simp add: example_draft_fields l)
qed

text \<open>
  Claim C2 as stated fails: for the draft with type \<open>user\<close>, target \<open>@abcde\<close>, reason
  \<open>spam\<close> and details \<open>test\<close> the summary does not contain the stored type
  \<open>user\<close> (it shows the label, with a capital U), and details of 201 characters (200
  times \<open>a\<close>, then \<open>Z\<close>), which the length check accepts, are not contained in their
  summary, which cuts them after 200 characters.
\<close>

theorem summary_not_verbatim:
  "confirm_report example_env (example_update (Text (str ''test'')))
     \<lparr>user_data = [Report_type \<mapsto> str ''user'', Report_target \<mapsto> str ''@abcde'',
                    Report_reason \<mapsto> str ''spam'', Report_details \<mapsto> str ''test''],
      user_cooldowns = Map.empty, trace = []\<rparr> =
     (Returned (State CONFIRMATION),
      \<lparr>user_data = [Report_type \<mapsto> str ''user'', Report_target \<mapsto> str ''@abcde'',
                    Report_reason \<mapsto> str ''spam'', Report_details \<mapsto> str ''test''],
       user_cooldowns = Map.empty,
       trace = [Reply (summary ascii_lib ([128100] @ str '' User'') (str ''@abcde'') (str ''spam'')
                         (str ''test'')) confirm_keyboard Markdown]\<rparr>) \<and>
   \<not> contains (summary ascii_lib ([128100] @ str '' User'') (str ''@abcde'') (str ''spam'')
                  (str ''test'')) (str ''user'') \<and>
   length (replicate 200 97 @ [90::nat]) \<le> MAX_REPORT_LENGTH \<and>
   \<not> contains (summary ascii_lib ([128100] @ str '' User'') (str ''@abcde'') (str ''spam'')
                  (replicate 200 97 @ [90])) (replicate 200 97 @ [90])"
proof (intro conjI)
  show "confirm_report example_env (example_update (Text (str ''test'')))
     \<lparr>user_data = [Report_type \<mapsto> str ''user'', Report_target \<mapsto> str ''@abcde'',
                    Report_reason \<mapsto> str ''spam'', Report_details \<mapsto> str ''test''],
      user_cooldowns = Map.empty, trace = []\<rparr> =
     (Returned (State CONFIRMATION),
      \<lparr>user_data = [Report_type \<mapsto> str ''user'', Report_target \<mapsto> str ''@abcde'',
                    Report_reason \<mapsto> str ''spam'', Report_details \<mapsto> str ''test''],
       user_cooldowns = Map.empty,
       trace = [Reply (summary ascii_lib ([128100] @ str '' User'') (str ''@abcde'') (str ''spam'')
                         (str ''test'')) confirm_keyboard Markdown]\<rparr>)"
    by (simp add: confirm_report_def REPORT_TYPES_def emit_def message_text_def
        example_update_def example_env_def)
      (simp add: str_def)
  show "\<not> contains (summary ascii_lib ([128100] @ str '' User'') (str ''@abcde'') (str ''spam'')
                  (str ''test'')) (str ''user'')"
    by (simp add: summary_def capitalize_spam) (simp add: str_def)
  show "length (replicate 200 97 @ [90::nat]) \<le> MAX_REPORT_LENGTH"
    by (simp add: MAX_REPORT_LENGTH_def)
  have "90 \<notin> set (summary ascii_lib ([128100] @ str '' User'') (str ''@abcde'') (str ''spam'')
                  (replicate 200 97 @ [90]))"
    by (simp add: summary_def capitalize_spam) (simp add: str_def)
  then show "\<not> contains (summary ascii_lib ([128100] @ str '' User'') (str ''@abcde'') (str ''spam'')
                  (replicate 200 97 @ [90])) (replicate 200 97 @ [90])"
    using contains_set by fastforce
qed

section \<open>The details step\<close>

lemma report_details_eq:
  "body u = Text m \<Longrightarrow>
   report_details e u w =
     (if length (strip m) > MAX_REPORT_LENGTH
      then (Returned (State REPORT_DETAILS),
            emit (Reply ([10060] @ str '' Details too long. Maximum '' @
                    str_of_int (int MAX_REPORT_LENGTH) @ str '' characters allowed.'' @
                    [10] @ str ''Please try again or use /skip to continue without '' @
                    str ''details.'') [] Plain) w)
      else confirm_report e u (store Report_details (strip m) w))"
  by (simp add: report_details_def message_text_def Let_def)

lemma conv_handler_details:
  "body u = Text m \<Longrightarrow>
   conv_handler e (Some REPORT_DETAILS) u w =
     (case report_details e u w of
        (Returned END, w') \<Rightarrow> Some (None, w')
      | (Returned (State s'), w') \<Rightarrow> Some (Some s', w')
      | (Raised err, w') \<Rightarrow> Some (Some REPORT_DETAILS, w'))"
  by (simp add: conv_handler_def is_text_def)

lemma store_fields:
  "user_data (store k v w) = (user_data w)(k \<mapsto> v)"
  "user_cooldowns (store k v w) = user_cooldowns w" "trace (store k v w) = trace w"
  by (simp_all add: store_def)

text \<open>
  Claim C7, as the code has it. In REPORT_DETAILS a text message whose whitespace-stripped
  text is longer than \<open>MAX_REPORT_LENGTH\<close> (1000) gets the too-long reply; the state
  stays REPORT_DETAILS and \<open>user_data\<close> is unchanged. One whose stripped text has at
  most 1000 characters (so also exactly 1000) is accepted: the stripped text is stored as
  the details and the conversation moves to CONFIRMATION with the summary (the type, target
  and reason being stored, as they are in this state).
\<close>

theorem details_length_bound:
  assumes "body u = Text m"
  shows "(length (strip m) > MAX_REPORT_LENGTH \<longrightarrow>
            conv_handler e (Some REPORT_DETAILS) u w =
              Some (Some REPORT_DETAILS,
                emit (Reply ([10060] @ str '' Details too long. Maximum '' @
                        str_of_int (int MAX_REPORT_LENGTH) @ str '' characters allowed.'' @
                        [10] @ str ''Please try again or use /skip to continue without '' @
                        str ''details.'') [] Plain) w)) \<and>
         (length (strip m) \<le> MAX_REPORT_LENGTH \<and> user_data w Report_type = Some ty \<and>
          REPORT_TYPES ty = Some label \<and> user_data w Report_target = Some tg \<and>
          user_data w Report_reason = Some rs \<longrightarrow>
            conv_handler e (Some REPORT_DETAILS) u w =
              Some (Some CONFIRMATION,
                emit (Reply (summary (lib e) label tg rs (strip m)) confirm_keyboard Markdown)
                  (store Report_details (strip m) w))) \<and>
         MAX_REPORT_LENGTH = 1000"
proof (intro conjI impI)
  assume "length (strip m) > MAX_REPORT_LENGTH"
  then show "conv_handler e (Some REPORT_DETAILS) u w =
              Some (Some REPORT_DETAILS,
                emit (Reply ([10060] @ str '' Details too long. Maximum '' @
                        str_of_int (int MAX_REPORT_LENGTH) @ str '' characters allowed.'' @
                        [10] @ str ''Please try again or use /skip to continue without '' @
                        str ''details.'') [] Plain) w)"
    by (simp add: conv_handler_details [OF assms] report_details_eq [OF assms])
next
  assume a: "length (strip m) \<le> MAX_REPORT_LENGTH \<and> user_data w Report_type = Some ty \<and>
          REPORT_TYPES ty = Some label \<and> user_data w Report_target = Some tg \<and>
          user_data w Report_reason = Some rs"
  have "message_text u \<noteq> None"
    using assms by (simp add: message_text_def)
  then have "confirm_report e u (store Report_details (strip m) w) =
      (Returned (State CONFIRMATION),
       emit (Reply (summary (lib e) label tg rs (strip m)) confirm_keyboard Markdown)
         (store Report_details (strip m) w))"
    using a by (simp add: confirm_report_def store_fields)
  then show "conv_handler e (Some REPORT_DETAILS) u w =
              Some (Some CONFIRMATION,
                emit (Reply (summary (lib e) label tg rs (strip m)) confirm_keyboard Markdown)
                  (store Report_details (strip m) w))"
    using a by (simp add: conv_handler_details [OF assms] report_details_eq [OF assms])
next
  show "MAX_REPORT_LENGTH = 1000" by (simp add: MAX_REPORT_LENGTH_def)
qed

lemma strip_replicate_a: "0 < n \<Longrightarrow> strip (replicate n 97) = replicate n 97"
  by (rule strip_id) (simp_all add: isspace_def hd_replicate last_replicate)

lemma strip_replicate_a_space: "0 < n \<Longrightarrow> strip (replicate n 97 @ [32]) = replicate n 97"
  using strip_spaces [of "[]" "[32]" "replicate n 97"]
  by (simp add: isspace_def strip_replicate_a)

theorem details_length_bound_witness:
  "body (example_update (Text (replicate 1001 97))) = Text (replicate 1001 97) \<and>
   body (example_update (Text (replicate 1000 97))) = Text (replicate 1000 97) \<and>
   conv_handler example_env (Some REPORT_DETAILS) (example_update (Text (replicate 1001 97)))
       example_world =
     Some (Some REPORT_DETAILS,
       emit (Reply ([10060] @ str '' Details too long. Maximum '' @
               str_of_int (int MAX_REPORT_LENGTH) @ str '' characters allowed.'' @
               [10] @ str ''Please try again or use /skip to continue without '' @
               str ''details.'') [] Plain) example_world) \<and>
   conv_handler example_env (Some REPORT_DETAILS) (example_update (Text (replicate 1000 97)))
       example_world =
     Some (Some CONFIRMATION,
       emit (Reply (summary ascii_lib ([128101] @ str '' Group'') (str ''https://t.me/examplegroup'')
                      (str ''spam'') (replicate 1000 97)) confirm_keyboard Markdown)
         (store Report_details (replicate 1000 97) example_world))"
proof -
  have b: "body (example_update (Text x)) = Text x" for x
    by (simp add: example_update_def)
  note t1 = details_length_bound [where u = "example_update (Text (replicate 1001 97))"
      and m = "replicate 1001 97" and e = example_env and w = example_world
      and ty = "str ''group''" and label = "[128101] @ str '' Group''"
      and tg = "str ''https://t.me/examplegroup''" and rs = "str ''spam''", OF b]
  note t2 = details_length_bound [where u = "example_update (Text (replicate 1000 97))"
      and m = "replicate 1000 97" and e = example_env and w = example_world
      and ty = "str ''group''" and label = "[128101] @ str '' Group''"
      and tg = "str ''https://t.me/examplegroup''" and rs = "str ''spam''", OF b]
  have f: "user_data example_world Report_type = Some (str ''group'')"
    "REPORT_TYPES (str ''group'') = Some ([128101] @ str '' Group'')"
    "user_data example_world Report_target = Some (str ''https://t.me/examplegroup'')"
    "user_data example_world Report_reason = Some (str ''spam'')"
    by (simp_all add: example_world_def example_draft_def REPORT_TYPES_def str_def)
  have l: "lib example_env = ascii_lib"
    by (simp add: example_env_def)
  have s0: "strip (replicate 1000 97) = replicate 1000 97"
    by (rule strip_replicate_a) simp
  have h1: "MAX_REPORT_LENGTH < length (strip (replicate 1001 97))"
    by (simp add: strip_replicate_a MAX_REPORT_LENGTH_def)
  have h2: "length (strip (replicate 1000 97)) \<le> MAX_REPORT_LENGTH \<and>
      user_data example_world Report_type = Some (str ''group'') \<and>
      REPORT_TYPES (str ''group'') = Some ([128101] @ str '' Group'') \<and>
      user_data example_world Report_target = Some (str ''https://t.me/examplegroup'') \<and>
      user_data example_world Report_reason = Some (str ''spam'')"
    unfolding s0 by (simp add: MAX_REPORT_LENGTH_def f)
  note c1 = t1 [THEN conjunct1, rule_format, OF h1]
  note c2 = t2 [THEN conjunct2, THEN conjunct1, rule_format, OF h2, unfolded s0 l]
  show ?thesis
    by (intro conjI) (rule b c1 c2)+
qed

text \<open>
  Claim C7 as stated fails: a message of 1001 characters (1000 times \<open>a\<close> and a space) is
  longer than the maximum and is accepted, and of a message of exactly 1000 characters (a
  space and 999 times \<open>a\<close>) only the 999 stripped characters are stored as the details.
\<close>

theorem raw_length_not_checked:
  "length (replicate 1000 97 @ [32::nat]) > MAX_REPORT_LENGTH \<and>
   conv_handler example_env (Some REPORT_DETAILS)
       (example_update (Text (replicate 1000 97 @ [32]))) example_world =
     Some (Some CONFIRMATION,
       emit (Reply (summary ascii_lib ([128101] @ str '' Group'') (str ''https://t.me/examplegroup'')
                      (str ''spam'') (replicate 1000 97)) confirm_keyboard Markdown)
         (store Report_details (replicate 1000 97) example_world)) \<and>
   length (32 # replicate 999 (97::nat)) = MAX_REPORT_LENGTH \<and>
   conv_handler example_env (Some REPORT_DETAILS)
       (example_update (Text (32 # replicate 999 97))) example_world =
     Some (Some CONFIRMATION,
       emit (Reply (summary ascii_lib ([128101] @ str '' Group'') (str ''https://t.me/examplegroup'')
                      (str ''spam'') (replicate 999 97)) confirm_keyboard Markdown)
         (store Report_details (replicate 999 97) example_world))"
proof -
  have b: "body (example_update (Text x)) = Text x" "message_text (example_update (Text x)) \<noteq> None" for x
    by (simp_all add: example_update_def message_text_def)
  have f: "user_data example_world Report_type = Some (str ''group'')"
    "REPORT_TYPES (str ''group'') = Some ([128101] @ str '' Group'')"
    "user_data example_world Report_target = Some (str ''https://t.me/examplegroup'')"
    "user_data example_world Report_reason = Some (str ''spam'')"
    by (simp_all add: example_world_def example_draft_def REPORT_TYPES_def str_def)
  have l: "lib example_env = ascii_lib"
    by (simp add: example_env_def)
  have s: "strip (32 # replicate 999 97) = replicate 999 97"
    using strip_spaces [of "[32]" "[]" "replicate 999 97"]
    by (simp add: isspace_def strip_replicate_a)
  show ?thesis
    by (simp add: conv_handler_details [OF b(1)] report_details_eq [OF b(1)] b f l s
        strip_replicate_a_space MAX_REPORT_LENGTH_def confirm_report_def store_fields)
qed

section \<open>Stripping of free text\<close>

lemma report_target_eq:
  "report_target e (u\<lparr>body := Text m\<rparr>) w =
     (if \<not> validate_target (lib e) (strip m)
      then (Returned (State REPORT_TARGET),
            emit (Reply ([10060] @
                    str '' Invalid format. Please provide a valid username '' @
                    str ''or Telegram link.'' @ [10, 10] @ str ''Examples:'' @
                    [10, 8226] @ str '' @username'' @ [10, 8226] @
                    str '' https://t.me/username'' @ [10, 8226] @
                    str '' https://t.me/+abc123...'') [] Plain) w)
      else (Returned (State REPORT_REASON),
            emit (Reply ([9888, 65039] @ str '' **Select a reason for your report:**'')
                    reason_keyboard Markdown)
              (store Report_target (strip m) w)))"
  by (simp add: report_target_def message_text_def Let_def)

lemma report_details_text:
  "report_details e (u\<lparr>body := Text m\<rparr>) w =
     (if length (strip m) > MAX_REPORT_LENGTH
      then (Returned (State REPORT_DETAILS),
            emit (Reply ([10060] @ str '' Details too long. Maximum '' @
                    str_of_int (int MAX_REPORT_LENGTH) @ str '' characters allowed.'' @
                    [10] @ str ''Please try again or use /skip to continue without '' @
                    str ''details.'') [] Plain) w)
      else confirm_report e (u\<lparr>body := Text m\<rparr>) (store Report_details (strip m) w))"
  by (rule report_details_eq) simp

lemma confirm_report_text:
  "confirm_report e (u\<lparr>body := Text m1\<rparr>) w = confirm_report e (u\<lparr>body := Text m2\<rparr>) w"
  by (simp add: confirm_report_def message_text_def)

lemma confirm_report_not_details:
  "fst (confirm_report e u w) \<noteq> Returned (State REPORT_DETAILS)"
  by (simp add: confirm_report_def split: option.splits)

lemma report_target_exact:
  "report_target e (u\<lparr>body := Text m\<rparr>) w =
     (if \<not> validate_target (lib e) (strip m)
      then (Returned (State REPORT_TARGET),
            w\<lparr>trace := trace w @
              [Reply ([10060] @
                    str '' Invalid format. Please provide a valid username '' @
                    str ''or Telegram link.'' @ [10, 10] @ str ''Examples:'' @
                    [10, 8226] @ str '' @username'' @ [10, 8226] @
                    str '' https://t.me/username'' @ [10, 8226] @
                    str '' https://t.me/+abc123...'') [] Plain]\<rparr>)
      else (Returned (State REPORT_REASON),
            w\<lparr>user_data := (user_data w)(Report_target \<mapsto> strip m),
              trace := trace w @
                [Reply ([9888, 65039] @ str '' **Select a reason for your report:**'')
                    reason_keyboard Markdown]\<rparr>))"
  by (simp add: report_target_def message_text_def Let_def emit_def store_def)

lemma confirm_report_user_data:
  "user_data (snd (confirm_report e u w)) = user_data w"
  by (simp add: confirm_report_def emit_def split: option.splits)

lemma report_details_exact:
  "report_details e (u\<lparr>body := Text m\<rparr>) w =
     (if length (strip m) > MAX_REPORT_LENGTH
      then (Returned (State REPORT_DETAILS),
            w\<lparr>trace := trace w @
              [Reply ([10060] @ str '' Details too long. Maximum '' @
                    str_of_int (int MAX_REPORT_LENGTH) @ str '' characters allowed.'' @
                    [10] @ str ''Please try again or use /skip to continue without '' @
                    str ''details.'') [] Plain]\<rparr>)
      else confirm_report e (u\<lparr>body := Text m\<rparr>)
             (w\<lparr>user_data := (user_data w)(Report_details \<mapsto> strip m)\<rparr>))"
  by (simp add: report_details_def message_text_def Let_def emit_def store_def)

text \<open>
  Claim C9. \<open>report_target\<close> and \<open>report_details\<close> see only the stripped text of a
  message. Two messages with the same stripped text give the same result, and whitespace
  around a text does not change its stripped text. A target that is valid and has no
  whitespace at its ends is accepted with whitespace around it, and \<open>user_data\<close> then
  holds it without the whitespace. In general the stripped text is what is validated, and
  on acceptance \<open>user_data\<close> holds the stripped text under \<open>report_target\<close>; on
  rejection only the invalid-format reply is added. The details are rejected exactly when
  the stripped text is longer than \<open>MAX_REPORT_LENGTH\<close>, with only the too-long
  reply added; otherwise \<open>user_data\<close> holds the stripped text under
  \<open>report_details\<close> when \<open>confirm_report\<close> runs and afterwards.
\<close>

theorem free_text_is_stripped:
  "(strip m1 = strip m2 \<longrightarrow>
      report_target e (u\<lparr>body := Text m1\<rparr>) w = report_target e (u\<lparr>body := Text m2\<rparr>) w \<and>
      report_details e (u\<lparr>body := Text m1\<rparr>) w = report_details e (u\<lparr>body := Text m2\<rparr>) w) \<and>
   (list_all isspace a \<and> list_all isspace b \<longrightarrow> strip (a @ m @ b) = strip m) \<and>
   (list_all isspace a \<and> list_all isspace b \<and> strip tg = tg \<and> validate_target (lib e) tg \<longrightarrow>
      report_target e (u\<lparr>body := Text (a @ tg @ b)\<rparr>) w =
        (Returned (State REPORT_REASON),
         w\<lparr>user_data := (user_data w)(Report_target \<mapsto> tg),
           trace := trace w @
             [Reply ([9888, 65039] @ str '' **Select a reason for your report:**'')
                reason_keyboard Markdown]\<rparr>)) \<and>
   (validate_target (lib e) (strip m) \<longrightarrow>
      report_target e (u\<lparr>body := Text m\<rparr>) w =
        (Returned (State REPORT_REASON),
         w\<lparr>user_data := (user_data w)(Report_target \<mapsto> strip m),
           trace := trace w @
             [Reply ([9888, 65039] @ str '' **Select a reason for your report:**'')
                reason_keyboard Markdown]\<rparr>)) \<and>
   (\<not> validate_target (lib e) (strip m) \<longrightarrow>
      report_target e (u\<lparr>body := Text m\<rparr>) w =
        (Returned (State REPORT_TARGET),
         w\<lparr>trace := trace w @
           [Reply ([10060] @
                    str '' Invalid format. Please provide a valid username '' @
                    str ''or Telegram link.'' @ [10, 10] @ str ''Examples:'' @
                    [10, 8226] @ str '' @username'' @ [10, 8226] @
                    str '' https://t.me/username'' @ [10, 8226] @
                    str '' https://t.me/+abc123...'') [] Plain]\<rparr>)) \<and>
   (fst (report_details e (u\<lparr>body := Text m\<rparr>) w) = Returned (State REPORT_DETAILS)) =
     (MAX_REPORT_LENGTH < length (strip m)) \<and>
   (MAX_REPORT_LENGTH < length (strip m) \<longrightarrow>
      report_details e (u\<lparr>body := Text m\<rparr>) w =
        (Returned (State REPORT_DETAILS),
         w\<lparr>trace := trace w @
           [Reply ([10060] @ str '' Details too long. Maximum '' @
                    str_of_int (int MAX_REPORT_LENGTH) @ str '' characters allowed.'' @
                    [10] @ str ''Please try again or use /skip to continue without '' @
                    str ''details.'') [] Plain]\<rparr>)) \<and>
   (length (strip m) \<le> MAX_REPORT_LENGTH \<longrightarrow>
      report_details e (u\<lparr>body := Text m\<rparr>) w =
        confirm_report e (u\<lparr>body := Text m\<rparr>)
          (w\<lparr>user_data := (user_data w)(Report_details \<mapsto> strip m)\<rparr>) \<and>
      user_data (snd (report_details e (u\<lparr>body := Text m\<rparr>) w)) =
        (user_data w)(Report_details \<mapsto> strip m))"
proof (intro conjI impI)
  assume "strip m1 = strip m2"
  then show "report_target e (u\<lparr>body := Text m1\<rparr>) w = report_target e (u\<lparr>body := Text m2\<rparr>) w"
    by (simp add: report_target_exact)
  assume "strip m1 = strip m2"
  then show "report_details e (u\<lparr>body := Text m1\<rparr>) w = report_details e (u\<lparr>body := Text m2\<rparr>) w"
    using confirm_report_text [where e = e and u = u and ?m1.0 = m1 and ?m2.0 = m2
        and w = "w\<lparr>user_data := (user_data w)(Report_details \<mapsto> strip m2)\<rparr>"]
    by (simp add: report_details_exact)
next
  assume "list_all isspace a \<and> list_all isspace b"
  then show "strip (a @ m @ b) = strip m"
    by (simp add: strip_spaces)
next
  assume h: "list_all isspace a \<and> list_all isspace b \<and> strip tg = tg \<and> validate_target (lib e) tg"
  then have "strip (a @ tg @ b) = tg"
    by (simp add: strip_spaces)
  then show "report_target e (u\<lparr>body := Text (a @ tg @ b)\<rparr>) w =
        (Returned (State REPORT_REASON),
         w\<lparr>user_data := (user_data w)(Report_target \<mapsto> tg),
           trace := trace w @
             [Reply ([9888, 65039] @ str '' **Select a reason for your report:**'')
                reason_keyboard Markdown]\<rparr>)"
    using h unfolding report_target_exact by simp
next
  assume "validate_target (lib e) (strip m)"
  then show "report_target e (u\<lparr>body := Text m\<rparr>) w =
        (Returned (State REPORT_REASON),
         w\<lparr>user_data := (user_data w)(Report_target \<mapsto> strip m),
           trace := trace w @
             [Reply ([9888, 65039] @ str '' **Select a reason for your report:**'')
                reason_keyboard Markdown]\<rparr>)"
    unfolding report_target_exact by simp
next
  assume "\<not> validate_target (lib e) (strip m)"
  then show "report_target e (u\<lparr>body := Text m\<rparr>) w =
        (Returned (State REPORT_TARGET),
         w\<lparr>trace := trace w @
           [Reply ([10060] @
                    str '' Invalid format. Please provide a valid username '' @
                    str ''or Telegram link.'' @ [10, 10] @ str ''Examples:'' @
                    [10, 8226] @ str '' @username'' @ [10, 8226] @
                    str '' https://t.me/username'' @ [10, 8226] @
                    str '' https://t.me/+abc123...'') [] Plain]\<rparr>)"
    unfolding report_target_exact by simp
next
  show "(fst (report_details e (u\<lparr>body := Text m\<rparr>) w) = Returned (State REPORT_DETAILS)) =
     (MAX_REPORT_LENGTH < length (strip m))"
    unfolding report_details_exact by (simp add: confirm_report_not_details)
next
  assume "MAX_REPORT_LENGTH < length (strip m)"
  then show "report_details e (u\<lparr>body := Text m\<rparr>) w =
        (Returned (State REPORT_DETAILS),
         w\<lparr>trace := trace w @
           [Reply ([10060] @ str '' Details too long. Maximum '' @
                    str_of_int (int MAX_REPORT_LENGTH) @ str '' characters allowed.'' @
                    [10] @ str ''Please try again or use /skip to continue without '' @
                    str ''details.'') [] Plain]\<rparr>)"
    unfolding report_details_exact by simp
next
  assume l: "length (strip m) \<le> MAX_REPORT_LENGTH"
  then show d: "report_details e (u\<lparr>body := Text m\<rparr>) w =
        confirm_report e (u\<lparr>body := Text m\<rparr>)
          (w\<lparr>user_data := (user_data w)(Report_details \<mapsto> strip m)\<rparr>)"
    unfolding report_details_exact by simp
  show "user_data (snd (report_details e (u\<lparr>body := Text m\<rparr>) w)) =
        (user_data w)(Report_details \<mapsto> strip m)"
    unfolding d by (simp add: confirm_report_user_data)
qed

theorem free_text_is_stripped_witness:
  "\<forall>u w. strip (str ''  test '') = strip (str ''test'') \<and>
     report_details example_env (u\<lparr>body := Text (str ''  test '')\<rparr>) w =
       report_details example_env (u\<lparr>body := Text (str ''test'')\<rparr>) w \<and>
     user_data (snd (report_details example_env (u\<lparr>body := Text (str ''  test '')\<rparr>) w)) =
       (user_data w)(Report_details \<mapsto> str ''test'') \<and>
     report_target example_env (u\<lparr>body := Text (str '' '' @ str ''@abcde'' @ str ''  '')\<rparr>) w =
        (Returned (State REPORT_REASON),
         w\<lparr>user_data := (user_data w)(Report_target \<mapsto> str ''@abcde''),
           trace := trace w @
             [Reply ([9888, 65039] @ str '' **Select a reason for your report:**'')
                reason_keyboard Markdown]\<rparr>)"
proof (intro allI conjI)
  fix u :: update and w :: world
  have e1: "list_all isspace (str ''  '') \<and> list_all isspace (str '' '')"
    by (simp add: str_def isspace_def)
  have t: "str ''  test '' = str ''  '' @ str ''test'' @ str '' ''"
    by (simp add: str_def)
  note th = free_text_is_stripped [where e = example_env and u = u and w = w
      and ?m1.0 = "str ''  test ''" and ?m2.0 = "str ''test''" and a = "str ''  ''"
      and b = "str '' ''" and m = "str ''test''" and tg = "str ''@abcde''"]
  note th2 = free_text_is_stripped [where e = example_env and u = u and w = w
      and a = "str '' ''" and b = "str ''  ''" and tg = "str ''@abcde''"]
  note th3 = free_text_is_stripped [where e = example_env and u = u and w = w
      and m = "str ''  test ''"]
  show s: "strip (str ''  test '') = strip (str ''test'')"
    unfolding t using th [THEN conjunct2, THEN conjunct1, rule_format, OF e1] .
  show "report_details example_env (u\<lparr>body := Text (str ''  test '')\<rparr>) w =
       report_details example_env (u\<lparr>body := Text (str ''test'')\<rparr>) w"
    using th [THEN conjunct1, rule_format, OF s] by (rule conjunct2)
  have s2: "strip (str ''  test '') = str ''test''"
    unfolding s by (rule strip_id) (simp_all add: str_def isspace_def)
  have l: "length (strip (str ''  test '')) \<le> MAX_REPORT_LENGTH"
    unfolding s2 by (simp add: str_def MAX_REPORT_LENGTH_def)
  show "user_data (snd (report_details example_env (u\<lparr>body := Text (str ''  test '')\<rparr>) w)) =
       (user_data w)(Report_details \<mapsto> str ''test'')"
    using th3 [THEN conjunct2, THEN conjunct2, THEN conjunct2, THEN conjunct2, THEN conjunct2,
        THEN conjunct2, THEN conjunct2, rule_format, OF l, THEN conjunct2]
    unfolding s2 .
  have v: "list_all isspace (str '' '') \<and> list_all isspace (str ''  '') \<and>
      strip (str ''@abcde'') = str ''@abcde'' \<and> validate_target (lib example_env) (str ''@abcde'')"
  proof (intro conjI)
    show "strip (str ''@abcde'') = str ''@abcde''"
      by (rule strip_id) (simp_all add: str_def isspace_def)
    show "validate_target (lib example_env) (str ''@abcde'')"
      by (simp add: validate_target_def re_match_def pat_username_def lit_def str_def is_word_def)
  qed (simp_all add: str_def isspace_def)
  show "report_target example_env (u\<lparr>body := Text (str '' '' @ str ''@abcde'' @ str ''  '')\<rparr>) w =
        (Returned (State REPORT_REASON),
         w\<lparr>user_data := (user_data w)(Report_target \<mapsto> str ''@abcde''),
           trace := trace w @
             [Reply ([9888, 65039] @ str '' **Select a reason for your report:**'')
                reason_keyboard Markdown]\<rparr>)"
    using th2 [THEN conjunct2, THEN conjunct2, THEN conjunct1, rule_format, OF v] .
qed

section \<open>The happy path\<close>

lemma type_group_matches: "re_match L pat_type (str ''type_group'')"
  by (simp add: re_match_def pat_type_def lit_def str_def)

lemma reason_spam_matches: "re_match L pat_reason (str ''reason_spam'')"
  by (simp add: re_match_def pat_reason_def lit_def str_def)

lemma replace_type_group: "replace (str ''type_'') [] (str ''type_group'') = str ''group''"
  by (simp add: str_def)

lemma replace_reason_spam: "replace (str ''reason_'') [] (str ''reason_spam'') = str ''spam''"
  by (simp add: str_def)

lemma group_label: "REPORT_TYPES (str ''group'') = Some ([128101] @ str '' Group'')"
  by (simp add: REPORT_TYPES_def str_def)

lemma step_type:
  "body u = CallbackQuery (str ''type_group'') \<Longrightarrow>
   map_option fst (conv_handler e (Some REPORT_TYPE) u w) = Some (Some REPORT_TARGET) \<and>
   map_option (user_data \<circ> snd) (conv_handler e (Some REPORT_TYPE) u w) =
     Some ((user_data w)(Report_type \<mapsto> str ''group''))"
  by (simp add: conv_handler_def is_callback_def type_group_matches report_type_callback_def
      replace_type_group group_label Let_def emit_fields store_fields)
    (simp add: str_def)

lemma step_target:
  "body u = Text (str ''https://t.me/examplegroup'') \<Longrightarrow>
   map_option fst (conv_handler e (Some REPORT_TARGET) u w) = Some (Some REPORT_REASON) \<and>
   map_option (user_data \<circ> snd) (conv_handler e (Some REPORT_TARGET) u w) =
     Some ((user_data w)(Report_target \<mapsto> str ''https://t.me/examplegroup''))"
proof -
  assume b: "body u = Text (str ''https://t.me/examplegroup'')"
  have s: "strip (str ''https://t.me/examplegroup'') = str ''https://t.me/examplegroup''"
    by (rule strip_id) (simp_all add: str_def isspace_def)
  have v: "validate_target (lib e) (str ''https://t.me/examplegroup'')"
    by (simp add: validate_target_def re_match_def pat_username_def pat_link_def pat_invite_def
        lit_def opt_def str_def is_word_def)
  show ?thesis
    using b s v
    by (simp add: conv_handler_def is_text_def report_target_def message_text_def Let_def
        emit_fields store_fields)
qed

lemma step_reason:
  "body u = CallbackQuery (str ''reason_spam'') \<Longrightarrow>
   map_option fst (conv_handler e (Some REPORT_REASON) u w) = Some (Some REPORT_DETAILS) \<and>
   map_option (user_data \<circ> snd) (conv_handler e (Some REPORT_REASON) u w) =
     Some ((user_data w)(Report_reason \<mapsto> str ''spam''))"
  by (simp add: conv_handler_def is_callback_def reason_spam_matches report_reason_callback_def
      replace_reason_spam Let_def emit_fields store_fields)
    (simp add: str_def)

lemma step_report:
  "body u = Command (str ''report'') t \<Longrightarrow> user_cooldowns w (effective_user_id u) = None \<Longrightarrow>
   map_option fst (conv_handler e None u w) = Some (Some REPORT_TYPE) \<and>
   map_option (user_data \<circ> snd) (conv_handler e None u w) = Some (user_data w) \<and>
   map_option (user_cooldowns \<circ> snd) (conv_handler e None u w) = Some (user_cooldowns w)"
  by (simp add: conv_handler_def entry_points_def is_command_def report_command_def
      message_text_def emit_fields)

lemma step_details:
  assumes "body u = Text (str ''test'')" "user_data w Report_type = Some ty"
    "REPORT_TYPES ty = Some label" "user_data w Report_target = Some tg"
    "user_data w Report_reason = Some rs"
  shows "map_option fst (conv_handler e (Some REPORT_DETAILS) u w) = Some (Some CONFIRMATION) \<and>
   map_option (user_data \<circ> snd) (conv_handler e (Some REPORT_DETAILS) u w) =
     Some ((user_data w)(Report_details \<mapsto> str ''test'')) \<and>
   map_option (last \<circ> trace \<circ> snd) (conv_handler e (Some REPORT_DETAILS) u w) =
     Some (Reply (summary (lib e) label tg rs (str ''test'')) confirm_keyboard Markdown)"
proof -
  have s: "strip (str ''test'') = str ''test''"
    by (rule strip_id) (simp_all add: str_def isspace_def)
  have l: "\<not> MAX_REPORT_LENGTH < length (str ''test'')"
    by (simp add: MAX_REPORT_LENGTH_def str_def)
  have m: "message_text u \<noteq> None"
    using assms(1) by (simp add: message_text_def)
  have "confirm_report e u (store Report_details (str ''test'') w) =
      (Returned (State CONFIRMATION),
       emit (Reply (summary (lib e) label tg rs (str ''test'')) confirm_keyboard Markdown)
         (store Report_details (str ''test'') w))"
    using assms(2-5) m by (simp add: confirm_report_def store_fields)
  then show ?thesis
    by (simp add: conv_handler_details [OF assms(1)] report_details_eq [OF assms(1)] s l
        emit_fields store_fields)
qed

lemma step_exists:
  assumes "map_option fst r = Some st"
  obtains w where "r = Some (st, w)"
  using assms by (cases r) auto

text \<open>
  The happy path, from \<open>/report\<close> to the summary: type \<open>group\<close>, target
  \<open>https://t.me/examplegroup\<close>, reason \<open>spam\<close>, details \<open>test\<close>. The conversation
  ends in CONFIRMATION, the draft holds the four values, and the last action is the reply
  with their summary.
\<close>

lemma happy_path_reaches_confirmation:
  "fst (run example_env (None, \<lparr>user_data = Map.empty, user_cooldowns = Map.empty, trace = []\<rparr>)
          happy_path) = Some CONFIRMATION \<and>
   user_data (snd (run example_env
       (None, \<lparr>user_data = Map.empty, user_cooldowns = Map.empty, trace = []\<rparr>) happy_path)) =
     example_draft \<and>
   last (trace (snd (run example_env
       (None, \<lparr>user_data = Map.empty, user_cooldowns = Map.empty, trace = []\<rparr>) happy_path))) =
     Reply (summary ascii_lib ([128101] @ str '' Group'') (str ''https://t.me/examplegroup'')
              (str ''spam'') (str ''test'')) confirm_keyboard Markdown"
proof -
  let ?e = example_env
  let ?w0 = "\<lparr>user_data = Map.empty, user_cooldowns = Map.empty, trace = []\<rparr> :: world"
  let ?u1 = "example_update (Command (str ''report'') (str ''/report''))"
  let ?u2 = "example_update (CallbackQuery (str ''type_group''))"
  let ?u3 = "example_update (Text (str ''https://t.me/examplegroup''))"
  let ?u4 = "example_update (CallbackQuery (str ''reason_spam''))"
  let ?u5 = "example_update (Text (str ''test''))"
  have b: "body (example_update x) = x" for x
    by (simp add: example_update_def)
  have r1: "map_option fst (conv_handler ?e None ?u1 ?w0) = Some (Some REPORT_TYPE)"
      "map_option (user_data \<circ> snd) (conv_handler ?e None ?u1 ?w0) = Some Map.empty"
    using step_report [of ?u1 "str ''/report''" ?w0 ?e] by (simp_all add: b)
  from r1(1) obtain w1 where w1: "conv_handler ?e None ?u1 ?w0 = Some (Some REPORT_TYPE, w1)"
    by (rule step_exists)
  have d1: "user_data w1 = Map.empty"
    using r1(2) w1 by simp
  from step_type [of ?u2 ?e w1]
  have r2: "map_option fst (conv_handler ?e (Some REPORT_TYPE) ?u2 w1) = Some (Some REPORT_TARGET)"
      "map_option (user_data \<circ> snd) (conv_handler ?e (Some REPORT_TYPE) ?u2 w1) =
         Some ((user_data w1)(Report_type \<mapsto> str ''group''))"
    by (simp_all add: b)
  from r2(1) obtain w2 where w2: "conv_handler ?e (Some REPORT_TYPE) ?u2 w1 = Some (Some REPORT_TARGET, w2)"
    by (rule step_exists)
  have d2: "user_data w2 = [Report_type \<mapsto> str ''group'']"
    using r2(2) w2 d1 by simp
  from step_target [of ?u3 ?e w2]
  have r3: "map_option fst (conv_handler ?e (Some REPORT_TARGET) ?u3 w2) = Some (Some REPORT_REASON)"
      "map_option (user_data \<circ> snd) (conv_handler ?e (Some REPORT_TARGET) ?u3 w2) =
         Some ((user_data w2)(Report_target \<mapsto> str ''https://t.me/examplegroup''))"
    by (simp_all add: b)
  from r3(1) obtain w3 where w3: "conv_handler ?e (Some REPORT_TARGET) ?u3 w2 = Some (Some REPORT_REASON, w3)"
    by (rule step_exists)
  have d3: "user_data w3 = [Report_type \<mapsto> str ''group'',
      Report_target \<mapsto> str ''https://t.me/examplegroup'']"
    using r3(2) w3 d2 by simp
  from step_reason [of ?u4 ?e w3]
  have r4: "map_option fst (conv_handler ?e (Some REPORT_REASON) ?u4 w3) = Some (Some REPORT_DETAILS)"
      "map_option (user_data \<circ> snd) (conv_handler ?e (Some REPORT_REASON) ?u4 w3) =
         Some ((user_data w3)(Report_reason \<mapsto> str ''spam''))"
    by (simp_all add: b)
  from r4(1) obtain w4 where w4: "conv_handler ?e (Some REPORT_REASON) ?u4 w3 = Some (Some REPORT_DETAILS, w4)"
    by (rule step_exists)
  have d4: "user_data w4 = [Report_type \<mapsto> str ''group'',
      Report_target \<mapsto> str ''https://t.me/examplegroup'', Report_reason \<mapsto> str ''spam'']"
    using r4(2) w4 d3 by simp
  have f4: "user_data w4 Report_type = Some (str ''group'')"
      "user_data w4 Report_target = Some (str ''https://t.me/examplegroup'')"
      "user_data w4 Report_reason = Some (str ''spam'')"
    by (simp_all add: d4)
  from step_details [OF b f4(1) group_label f4(2,3), of ?e]
  have r5: "map_option fst (conv_handler ?e (Some REPORT_DETAILS) ?u5 w4) = Some (Some CONFIRMATION)"
      "map_option (user_data \<circ> snd) (conv_handler ?e (Some REPORT_DETAILS) ?u5 w4) =
         Some ((user_data w4)(Report_details \<mapsto> str ''test''))"
      "map_option (last \<circ> trace \<circ> snd) (conv_handler ?e (Some REPORT_DETAILS) ?u5 w4) =
         Some (Reply (summary (lib ?e) ([128101] @ str '' Group'') (str ''https://t.me/examplegroup'')
              (str ''spam'') (str ''test'')) confirm_keyboard Markdown)"
    by simp_all
  from r5(1) obtain w5 where w5: "conv_handler ?e (Some REPORT_DETAILS) ?u5 w4 = Some (Some CONFIRMATION, w5)"
    by (rule step_exists)
  have d5: "user_data w5 = example_draft"
    using r5(2) w5 d4 by (simp add: example_draft_def)
  have t5: "last (trace w5) =
      Reply (summary ascii_lib ([128101] @ str '' Group'') (str ''https://t.me/examplegroup'')
              (str ''spam'') (str ''test'')) confirm_keyboard Markdown"
    using r5(3) w5 by (simp add: example_env_def)
  have "run ?e (None, ?w0) happy_path = (Some CONFIRMATION, w5)"
    by (simp add: happy_path_def w1 w2 w3 w4 w5)
  then show ?thesis
    using d5 t5 by simp
qed

end
